theory Spec2Isabelle
  imports Main "HOL-Library.Word"
begin

section \<open>Correlation store: the \<open>transactions\<close> table (package repository)\<close>

text \<open>
  Instants (\<open>time.Time\<close>) are integers on one time line (nanoseconds); a
  \<open>time.Duration\<close> added to an instant is an integer as well. The SQL comparisons
  \<open>expires_at > ?\<close> and \<open>expires_at <= ?\<close> and the ordering by \<open>sent_at\<close> are
  read as the comparison of the instants that were bound.
\<close>

type_synonym time = int

record TransactionRecord =
  ID :: int
  TrxID :: string
  MessageID :: string
  Destination :: string
  DestinationType :: string
  SentAt :: time
  ExpiresAt :: time
  CreatedAt :: time

text \<open>
  Go errors are values. Each constructor stands for one error site of the source
  (one \<open>fmt.Errorf\<close> format, its arguments being the constructor's); an error wrapped
  with \<open>%w\<close> is the constructor's \<open>error\<close> argument. \<open>Driver\<close> is an error of a
  library outside the repository (the SQL driver, the chat client, the HTTP client),
  with its text.
\<close>

datatype error =
    Driver string
  | UniqueConstraint string
  | CheckExistingFailed error
  | DuplicateTransaction string time
  | InvalidDestination error
  | InvalidGroupJID error
  | GroupNotFound error
  | InvalidPhoneFormat
  | WhatsAppStatusFailed error
  | NotRegistered
  | NotConnected
  | SendFailed error
  | MarshalFailed error
  | CreateRequestFailed error
  | SendRequestFailed error
  | UnexpectedStatus int
  | WebhookDeliveryFailed int "error option"

text \<open>
  The table: its rows in rowid order, and the AUTOINCREMENT counter. The column
  \<open>trx_id\<close> is declared \<open>UNIQUE\<close> over all rows of the table.
\<close>

record TransactionRepository =
  rows :: "TransactionRecord list"
  seq :: int

text \<open>
  Every repository operation is one statement on the database handle. The first
  argument is what the driver does with it for reasons outside the table (closed handle,
  I/O failure): \<open>Some m\<close> when the call fails with text \<open>m\<close>, \<open>None\<close> when the
  statement runs. The second is the instant \<open>time.Now()\<close> bound to the statement.
\<close>

definition unexpired :: "time \<Rightarrow> TransactionRecord \<Rightarrow> bool" where
  "unexpired now row = (ExpiresAt row > now)"

definition Save ::
  "string option \<Rightarrow> time \<Rightarrow> TransactionRepository \<Rightarrow> TransactionRecord
    \<Rightarrow> error option \<times> TransactionRepository" where
  "Save io created r record =
     (case io of
        Some m \<Rightarrow> (Some (Driver m), r)
      | None \<Rightarrow>
          if TrxID record \<in> set (map TrxID (rows r))
          then (Some (UniqueConstraint ''transactions.trx_id''), r)
          else (None,
                r\<lparr>rows := rows r @ [record\<lparr>ID := seq r + 1, CreatedAt := created\<rparr>],
                  seq := seq r + 1\<rparr>))"

definition GetByTrxID ::
  "string option \<Rightarrow> time \<Rightarrow> TransactionRepository \<Rightarrow> string
    \<Rightarrow> error + TransactionRecord option" where
  "GetByTrxID io now r trxID =
     (case io of
        Some m \<Rightarrow> Inl (Driver m)
      | None \<Rightarrow> Inr (find (\<lambda>row. TrxID row = trxID \<and> unexpired now row) (rows r)))"

text \<open>
  \<open>ORDER BY sent_at DESC LIMIT 1\<close>: a row with the greatest \<open>sent_at\<close>. SQL leaves
  open which one among rows with equal \<open>sent_at\<close>; the scan below keeps the earliest
  rowid, and no theorem depends on that choice.
\<close>

fun latest :: "TransactionRecord list \<Rightarrow> TransactionRecord option" where
  "latest [] = None"
| "latest (x # xs) =
     (case latest xs of
        None \<Rightarrow> Some x
      | Some y \<Rightarrow> if SentAt y > SentAt x then Some y else Some x)"

definition GetByDestination ::
  "string option \<Rightarrow> time \<Rightarrow> TransactionRepository \<Rightarrow> string
    \<Rightarrow> error + TransactionRecord option" where
  "GetByDestination io now r destination =
     (case io of
        Some m \<Rightarrow> Inl (Driver m)
      | None \<Rightarrow>
          Inr (latest (filter (\<lambda>row. Destination row = destination \<and> unexpired now row)
                 (rows r))))"

definition CleanupExpired ::
  "string option \<Rightarrow> time \<Rightarrow> TransactionRepository
    \<Rightarrow> (error + int) \<times> TransactionRepository" where
  "CleanupExpired io now r =
     (case io of
        Some m \<Rightarrow> (Inl (Driver m), r)
      | None \<Rightarrow>
          (Inr (int (length (filter (\<lambda>row. ExpiresAt row \<le> now) (rows r)))),
           r\<lparr>rows := filter (\<lambda>row. \<not> ExpiresAt row \<le> now) (rows r)\<rparr>))"

definition Count ::
  "string option \<Rightarrow> time \<Rightarrow> TransactionRepository \<Rightarrow> int \<times> error option" where
  "Count io now r =
     (case io of
        Some m \<Rightarrow> (0, Some (Driver m))
      | None \<Rightarrow> (int (length (filter (unexpired now) (rows r))), None))"


section \<open>Strings and chat addresses\<close>

text \<open>
  Strings are byte strings, as Go's are: \<open>length\<close> is Go's \<open>len\<close>. The library
  functions the source calls on them are written out: \<open>strings.HasPrefix\<close>,
  \<open>strings.Contains\<close>, \<open>strings.TrimLeft\<close> (drop leading bytes that occur in the
  cutset), and \<open>ReplaceAllString\<close> of the pattern \<open>[^\d]\<close> by the empty string
  (\<open>\d\<close> matches the ten ASCII digits only, so every other byte goes).
\<close>

definition HasPrefix :: "string \<Rightarrow> string \<Rightarrow> bool" where
  "HasPrefix s p = (length s \<ge> length p \<and> take (length p) s = p)"

fun Contains :: "string \<Rightarrow> string \<Rightarrow> bool" where
  "Contains [] sub = (sub = [])"
| "Contains (c # cs) sub = (HasPrefix (c # cs) sub \<or> Contains cs sub)"

fun TrimLeft :: "string \<Rightarrow> string \<Rightarrow> string" where
  "TrimLeft [] cutset = []"
| "TrimLeft (c # cs) cutset = (if c \<in> set cutset then TrimLeft cs cutset else c # cs)"

definition digit :: "char \<Rightarrow> bool" where
  "digit c = (c \<in> set ''0123456789'')"

fun ReplaceAll_nondigit :: "string \<Rightarrow> string" where
  "ReplaceAll_nondigit [] = []"
| "ReplaceAll_nondigit (c # cs) =
     (if digit c then c # ReplaceAll_nondigit cs else ReplaceAll_nondigit cs)"

definition normalizePhoneNumber :: "string \<Rightarrow> string" where
  "normalizePhoneNumber phone0 =
     (let phone1 = ReplaceAll_nondigit phone0;
          phone2 = TrimLeft phone1 ''0'';
          phone3 = (if \<not> HasPrefix phone2 ''62'' then ''62'' @ phone2 else phone2)
      in if length phone3 < 11 \<or> length phone3 > 15 then [] else phone3)"

text \<open>
  A chat address of the transport library (\<open>types.JID\<close>): \<open>types.NewJID\<close> fills
  user and server, \<open>String()\<close> prints \<open>user@server\<close>, the server alone when there
  is no user.
\<close>

record JID =
  User :: string
  Server :: string

definition NewJID :: "string \<Rightarrow> string \<Rightarrow> JID" where
  "NewJID user server = \<lparr>User = user, Server = server\<rparr>"

definition DefaultUserServer :: string where
  "DefaultUserServer = ''s.whatsapp.net''"

definition JID_String :: "JID \<Rightarrow> string" where
  "JID_String jid = (if User jid = [] then Server jid else User jid @ ''@'' @ Server jid)"

section \<open>Webhook payload (package model)\<close>

record Sender =
  Phone :: string
  Name :: string

record MessageContent =
  Type :: string
  Content :: string
  Timestamp :: time
  MediaURL :: string

record MessageContext =
  ChatType :: string
  IsReply :: bool
  OriginalMessageID :: string
  QuotedMessageContent :: string

record WebhookPayload =
  Event :: string
  Sender :: Sender
  Message :: MessageContent
  Context :: MessageContext

section \<open>Effects\<close>

text \<open>
  What a call does to the outside is recorded, in order, in a trace: a message handed to
  the transport's \<open>SendMessage\<close>, a \<open>time.Sleep\<close> with its duration in nanoseconds,
  one call of the webhook's \<open>send\<close>, and a log line with its level, its text and its
  fields. The state a call works on is the table and the trace so far.
\<close>

datatype level = LInfo | LWarn | LError

datatype logval = S string | I int | E error

datatype event =
    ClientSendMessage JID string
  | Sleep int
  | WebhookSend WebhookPayload
  | Log level string "(string \<times> logval) list"

record world =
  repo :: TransactionRepository
  trace :: "event list"

definition emit :: "event \<Rightarrow> world \<Rightarrow> world" where
  "emit ev w = w\<lparr>trace := trace w @ [ev]\<rparr>"

section \<open>Delivery dispatcher (package service, OtomaxService)\<close>

record OtomaxConfig =
  WebhookURL :: string
  WebhookTimeout :: int
  RetryCount :: int

text \<open>
  What one call of \<open>send\<close> meets: \<open>json.Marshal\<close> fails, building the request
  fails, the HTTP client returns an error, or the endpoint answers with a status code.
  A delivery reads the outcome of its attempt number \<open>n\<close> (from 0) as \<open>http n\<close>.
\<close>

datatype http_outcome =
    MarshalError string
  | RequestError string
  | TransportError string
  | Response int

definition send :: "http_outcome \<Rightarrow> error option" where
  "send outcome =
     (case outcome of
        MarshalError m \<Rightarrow> Some (MarshalFailed (Driver m))
      | RequestError m \<Rightarrow> Some (CreateRequestFailed (Driver m))
      | TransportError m \<Rightarrow> Some (SendRequestFailed (Driver m))
      | Response code \<Rightarrow>
          if code < 200 \<or> code \<ge> 300 then Some (UnexpectedStatus code) else None)"

text \<open>
  \<open>time.Duration(math.Pow(2, float64(attempt-1))) * time.Second\<close>. A
  \<open>time.Duration\<close> is a signed 64-bit count of nanoseconds, \<open>time.Second\<close> is
  \<open>1000000000\<close>, and the product wraps around. \<open>math.Pow\<close> of 2 is exact; its
  conversion to the 64-bit integer truncates a negative power of 2 to 0, is the power
  itself from \<open>2^0\<close> to \<open>2^62\<close>, and is left to the platform by the language
  from \<open>2^63\<close> on: \<open>conv\<close> is what the platform returns then.
\<close>

definition backoff :: "64 word \<Rightarrow> int \<Rightarrow> 64 word" where
  "backoff conv attempt =
     (if attempt - 1 < 0 then 0
      else if attempt - 1 < 63 then word_of_int (2 ^ nat (attempt - 1))
      else conv) * 1000000000"

record webhook_env =
  http :: "int \<Rightarrow> http_outcome"
  conv_overflow :: "64 word"

text \<open>
  The retry loop of \<open>SendWebhook\<close>, from the value of \<open>attempt\<close> and \<open>lastErr\<close> at
  the loop's head. \<open>RetryCount\<close> is below the largest \<open>int\<close>, so \<open>attempt++\<close> does
  not wrap. The log field \<open>backoff_seconds\<close> is recorded as the duration in
  nanoseconds.
\<close>

function SendWebhook_loop ::
  "OtomaxConfig \<Rightarrow> webhook_env \<Rightarrow> WebhookPayload \<Rightarrow> string \<Rightarrow> int \<Rightarrow> error option
    \<Rightarrow> world \<Rightarrow> error option \<times> world" where
  "SendWebhook_loop cfg env payload trxID attempt lastErr w =
     (if attempt \<le> RetryCount cfg then
        (let w1 = (if attempt > 0 then
                     emit (Sleep (sint (backoff (conv_overflow env) attempt)))
                       (emit (Log LWarn ''Retrying webhook delivery''
                          [(''trxid'', S trxID), (''attempt'', I (attempt + 1)),
                           (''backoff_seconds'',
                            I (sint (backoff (conv_overflow env) attempt)))]) w)
                   else w);
             w2 = emit (WebhookSend payload) w1
         in (case send (http env attempt) of
               None \<Rightarrow>
                 (None,
                  if attempt > 0 then
                    emit (Log LInfo ''Webhook delivered''
                      [(''trxid'', S trxID), (''attempt'', I (attempt + 1))]) w2
                  else w2)
             | Some err \<Rightarrow>
                 SendWebhook_loop cfg env payload trxID (attempt + 1) (Some err)
                   (emit (Log LWarn ''Webhook delivery failed''
                      [(''trxid'', S trxID), (''attempt'', I (attempt + 1)),
                       (''error'', E err)]) w2)))
      else (Some (WebhookDeliveryFailed (RetryCount cfg + 1) lastErr), w))"
  by pat_completeness auto
termination
  by (relation "measure (\<lambda>(cfg, env, payload, trxID, attempt, lastErr, w).
        nat (RetryCount cfg + 1 - attempt))") auto

declare SendWebhook_loop.simps [simp del]

definition SendWebhook ::
  "OtomaxConfig \<Rightarrow> webhook_env \<Rightarrow> WebhookPayload \<Rightarrow> string \<Rightarrow> world
    \<Rightarrow> error option \<times> world" where
  "SendWebhook cfg env payload trxID w = SendWebhook_loop cfg env payload trxID 0 None w"

section \<open>Chat transport (package service, WhatsAppService)\<close>

text \<open>
  The transport client is outside the repository. Its answers are inputs: what
  \<open>types.ParseJID\<close> returns, the error of \<open>GetGroupInfo\<close> (\<open>None\<close> when the group is
  found), the \<open>IsIn\<close> flags of the entries \<open>IsOnWhatsApp\<close> returns, whether the client is
  connected, and what \<open>SendMessage\<close> returns (the message ID, or the error text).
\<close>

record whatsmeow =
  client_ParseJID :: "string \<Rightarrow> string + JID"
  client_GetGroupInfo :: "JID \<Rightarrow> string option"
  client_IsOnWhatsApp :: "string list \<Rightarrow> string + bool list"
  client_IsConnected :: bool
  client_SendMessage :: "JID \<Rightarrow> string \<Rightarrow> string + string"

text \<open>
  The service: its client, the dispatcher when one is set (\<open>nil\<close> otherwise), whether
  a repository is set, and the whitelist. The repository's table is in the state.
\<close>

record WhatsAppService =
  client :: whatsmeow
  otomaxService :: "OtomaxConfig option"
  repo_set :: bool
  webhookWhitelist :: "string list"

definition ValidateDestination :: "WhatsAppService \<Rightarrow> string \<Rightarrow> error + JID \<times> string" where
  "ValidateDestination s destination =
     (if Contains destination ''@g.us'' then
        (case client_ParseJID (client s) destination of
           Inl m \<Rightarrow> Inl (InvalidGroupJID (Driver m))
         | Inr jid \<Rightarrow>
             (case client_GetGroupInfo (client s) jid of
                Some m \<Rightarrow> Inl (GroupNotFound (Driver m))
              | None \<Rightarrow> Inr (jid, ''group'')))
      else
        (let phone = normalizePhoneNumber destination in
         if phone = [] then Inl InvalidPhoneFormat
         else
           (case client_IsOnWhatsApp (client s) [phone] of
              Inl m \<Rightarrow> Inl (WhatsAppStatusFailed (Driver m))
            | Inr resp \<Rightarrow>
                (case resp of
                   [] \<Rightarrow> Inl NotRegistered
                 | isIn # _ \<Rightarrow>
                     if \<not> isIn then Inl NotRegistered
                     else Inr (NewJID phone DefaultUserServer, ''personal'')))))"

definition SendMessage ::
  "WhatsAppService \<Rightarrow> JID \<Rightarrow> string \<Rightarrow> world \<Rightarrow> (error + string) \<times> world" where
  "SendMessage s to text w =
     (if \<not> client_IsConnected (client s) then (Inl NotConnected, w)
      else
        (case client_SendMessage (client s) to text of
           Inl m \<Rightarrow> (Inl (SendFailed (Driver m)), emit (ClientSendMessage to text) w)
         | Inr respID \<Rightarrow> (Inr respID, emit (ClientSendMessage to text) w)))"

fun isWhitelisted_loop :: "string list \<Rightarrow> string \<Rightarrow> bool" where
  "isWhitelisted_loop [] jid = False"
| "isWhitelisted_loop (whitelisted # rest) jid =
     (if whitelisted = jid then True else isWhitelisted_loop rest jid)"

definition isWhitelisted :: "WhatsAppService \<Rightarrow> string \<Rightarrow> bool" where
  "isWhitelisted s jid = isWhitelisted_loop (webhookWhitelist s) jid"

text \<open>
  The whitelist check of \<open>handleIncomingMessage\<close>: the guard \<open>len(whitelist) > 0\<close>
  around the call of \<open>isWhitelisted\<close>. \<open>True\<close> when the handler goes on.
\<close>

definition whitelist_passes :: "WhatsAppService \<Rightarrow> string \<Rightarrow> bool" where
  "whitelist_passes s chatJID =
     (if length (webhookWhitelist s) > 0 then isWhitelisted s chatJID else True)"

text \<open>
  An inbound message event of the transport library. A pointer field is an option,
  \<open>None\<close> for \<open>nil\<close>.
\<close>

datatype Message =
  Message (Conversation: "string option") (ExtendedTextMessage: "ExtendedTextMessage option")
and ExtendedTextMessage =
  ExtendedTextMessage (Text: "string option") (ContextInfo: "ContextInfo option")
and ContextInfo =
  ContextInfo (StanzaID: "string option") (QuotedMessage: "Message option")

record MessageInfo =
  IsFromMe :: bool
  Chat :: JID
  SenderJID :: JID
  PushName :: string
  InfoTimestamp :: time

record MessageEvent =
  Info :: MessageInfo
  Msg :: Message

record inbound_env =
  io_dest :: "string option"
  now_dest :: time
  webhook :: webhook_env

text \<open>
  The text of the message; \<open>None\<close> where the source dereferences the \<open>nil\<close> text
  pointer of an extended text message, which panics.
\<close>

definition messageContent_of :: "Message \<Rightarrow> string option" where
  "messageContent_of m =
     (case Conversation m of
        Some c \<Rightarrow> Some c
      | None \<Rightarrow>
          (case ExtendedTextMessage m of
             Some ext \<Rightarrow> Text ext
           | None \<Rightarrow> Some []))"

definition quoted_content :: "Message \<Rightarrow> string \<Rightarrow> string" where
  "quoted_content quotedMsg old =
     (case Conversation quotedMsg of
        Some c \<Rightarrow> c
      | None \<Rightarrow>
          (case ExtendedTextMessage quotedMsg of
             Some ext \<Rightarrow> (case Text ext of Some t \<Rightarrow> t | None \<Rightarrow> old)
           | None \<Rightarrow> old))"

definition build_payload :: "MessageEvent \<Rightarrow> TransactionRecord \<Rightarrow> string \<Rightarrow> WebhookPayload" where
  "build_payload evt trackingRecord messageContent =
     (let ctx0 = \<lparr>ChatType = DestinationType trackingRecord, IsReply = False,
                  OriginalMessageID = MessageID trackingRecord,
                  QuotedMessageContent = []\<rparr>;
          ctx1 =
            (case ExtendedTextMessage (Msg evt) of
               None \<Rightarrow> ctx0
             | Some ext \<Rightarrow>
                 (case ContextInfo ext of
                    None \<Rightarrow> ctx0
                  | Some ci \<Rightarrow>
                      (let c1 = ctx0\<lparr>IsReply := True\<rparr>;
                           c2 = (case StanzaID ci of
                                   Some sid \<Rightarrow> c1\<lparr>OriginalMessageID := sid\<rparr>
                                 | None \<Rightarrow> c1)
                       in (case QuotedMessage ci of
                             Some quotedMsg \<Rightarrow>
                               c2\<lparr>QuotedMessageContent :=
                                    quoted_content quotedMsg (QuotedMessageContent c2)\<rparr>
                           | None \<Rightarrow> c2))))
      in \<lparr>Event = ''message_received'',
          Sender = \<lparr>Phone = User (SenderJID (Info evt)), Name = PushName (Info evt)\<rparr>,
          Message = \<lparr>Type = ''text'', Content = messageContent,
                      Timestamp = InfoTimestamp (Info evt), MediaURL = []\<rparr>,
          Context = ctx1\<rparr>)"

datatype run = Return world | Panic world

definition handleIncomingMessage ::
  "WhatsAppService \<Rightarrow> inbound_env \<Rightarrow> MessageEvent \<Rightarrow> world \<Rightarrow> run" where
  "handleIncomingMessage s e evt w =
     (if IsFromMe (Info evt) then Return w
      else if \<not> repo_set s then Return w
      else
        (let chatJID = JID_String (Chat (Info evt)) in
         if \<not> whitelist_passes s chatJID then
           Return (emit (Log LInfo ''Message from non-whitelisted JID ignored''
                     [(''jid'', S chatJID)]) w)
         else
           (case GetByDestination (io_dest e) (now_dest e) (repo w) chatJID of
              Inl err \<Rightarrow>
                Return (emit (Log LError ''Failed to get tracking info''
                          [(''error'', E err), (''jid'', S chatJID)]) w)
            | Inr None \<Rightarrow> Return w
            | Inr (Some trackingRecord) \<Rightarrow>
                (case messageContent_of (Msg evt) of
                   None \<Rightarrow> Panic w
                 | Some messageContent \<Rightarrow>
                     (case otomaxService s of
                        None \<Rightarrow> Return w
                      | Some cfg \<Rightarrow>
                          (case SendWebhook cfg (webhook e)
                                  (build_payload evt trackingRecord messageContent)
                                  (TrxID trackingRecord) w of
                             (Some err, w1) \<Rightarrow>
                               Return (emit (Log LError ''Failed to send webhook''
                                         [(''trxid'', S (TrxID trackingRecord)),
                                          (''error'', E err),
                                          (''from'', S (User (SenderJID (Info evt))))]) w1)
                           | (None, w1) \<Rightarrow>
                               Return (emit (Log LInfo
                                         ''Message received and forwarded to webhook''
                                         [(''trxid'', S (TrxID trackingRecord)),
                                          (''from'', S (User (SenderJID (Info evt)))),
                                          (''message'', S messageContent)]) w1)))))))"

section \<open>Dedup gate (package service, TransactionService)\<close>

record TransactionRequest =
  req_Destination :: string
  req_TrxID :: string
  req_Descriptions :: string
  req_Instructions :: string

record TransactionData =
  data_TrxID :: string
  data_Destination :: string
  data_DestinationType :: string
  data_MessageID :: string
  data_Timestamp :: time

record TransactionService =
  whatsappService :: WhatsAppService
  ttl :: int

text \<open>
  What one call of \<open>ProcessTransaction\<close> reads from outside: the clock at each
  \<open>time.Now()\<close> and the driver's behaviour at each statement, in the order of the calls
  (the lookup by \<open>trx_id\<close>, the insert, the count), and the insert's
  \<open>CURRENT_TIMESTAMP\<close>.
\<close>

record admit_env =
  io_lookup :: "string option"
  now_lookup :: time
  now_sent :: time
  io_save :: "string option"
  now_created :: time
  io_count :: "string option"
  now_count :: time

definition ProcessTransaction ::
  "TransactionService \<Rightarrow> admit_env \<Rightarrow> TransactionRequest \<Rightarrow> world
    \<Rightarrow> (error + TransactionData) \<times> world" where
  "ProcessTransaction s e req w =
     (case GetByTrxID (io_lookup e) (now_lookup e) (repo w) (req_TrxID req) of
        Inl err \<Rightarrow> (Inl (CheckExistingFailed err), w)
      | Inr (Some existingTrx) \<Rightarrow>
          (Inl (DuplicateTransaction (req_TrxID req) (SentAt existingTrx)), w)
      | Inr None \<Rightarrow>
          (case ValidateDestination (whatsappService s) (req_Destination req) of
             Inl err \<Rightarrow> (Inl (InvalidDestination err), w)
           | Inr (jid, destType) \<Rightarrow>
               (case SendMessage (whatsappService s) jid (req_Instructions req) w of
                  (Inl err, w1) \<Rightarrow> (Inl (SendFailed err), w1)
                | (Inr messageID, w1) \<Rightarrow>
                    (let now = now_sent e;
                         record = \<lparr>ID = 0, TrxID = req_TrxID req, MessageID = messageID,
                                   Destination = JID_String jid, DestinationType = destType,
                                   SentAt = now, ExpiresAt = now + ttl s, CreatedAt = 0\<rparr>;
                         (saved, repo1) = Save (io_save e) (now_created e) (repo w1) record;
                         w2 = w1\<lparr>repo := repo1\<rparr>;
                         w3 = (case saved of
                                 Some err \<Rightarrow>
                                   emit (Log LError ''Failed to save transaction to database''
                                     [(''trxid'', S (req_TrxID req)), (''error'', E err)]) w2
                               | None \<Rightarrow> w2);
                         (count, _) = Count (io_count e) (now_count e) (repo w3);
                         w4 = emit (Log LInfo ''Transaction sent''
                                [(''trxid'', S (req_TrxID req)),
                                 (''destination'', S (JID_String jid)),
                                 (''type'', S destType),
                                 (''message_id'', S messageID),
                                 (''tracker_count'', I count)]) w3
                     in (Inr \<lparr>data_TrxID = req_TrxID req,
                              data_Destination = JID_String jid,
                              data_DestinationType = destType,
                              data_MessageID = messageID,
                              data_Timestamp = now\<rparr>, w4)))))"


section \<open>Request handler (package handler, TransactionHandler)\<close>














section \<open>The store's constraint, and inputs to run the code on\<close>

text \<open>
  The \<open>UNIQUE\<close> constraint on \<open>trx_id\<close>, as a property of the table, and the
  table with one row taken out.
\<close>

definition unique_trx_id :: "TransactionRepository \<Rightarrow> bool" where
  "unique_trx_id r = distinct (map TrxID (rows r))"

definition without :: "TransactionRecord \<Rightarrow> TransactionRepository \<Rightarrow> TransactionRepository" where
  "without row r = r\<lparr>rows := filter (\<lambda>y. y \<noteq> row) (rows r)\<rparr>"

text \<open>
  A transport that is connected, knows every phone number and no group, and answers
  every send with the given message ID; a service on it with no whitelist; an
  environment in which every clock reads \<open>t\<close> and every statement runs.
\<close>

definition demo_client :: "string \<Rightarrow> whatsmeow" where
  "demo_client messageID =
     \<lparr>client_ParseJID = (\<lambda>s. Inl ''not a group''),
      client_GetGroupInfo = (\<lambda>j. Some ''not a member''),
      client_IsOnWhatsApp = (\<lambda>phones. Inr (map (\<lambda>p. True) phones)),
      client_IsConnected = True,
      client_SendMessage = (\<lambda>to text. Inr messageID)\<rparr>"

definition demo_whatsapp :: "string \<Rightarrow> string list \<Rightarrow> WhatsAppService" where
  "demo_whatsapp messageID whitelist =
     \<lparr>client = demo_client messageID, otomaxService = None, repo_set = True,
      webhookWhitelist = whitelist\<rparr>"

definition demo_service :: "string \<Rightarrow> int \<Rightarrow> TransactionService" where
  "demo_service messageID t = \<lparr>whatsappService = demo_whatsapp messageID [], ttl = t\<rparr>"

definition at_time :: "time \<Rightarrow> admit_env" where
  "at_time t =
     \<lparr>io_lookup = None, now_lookup = t, now_sent = t, io_save = None, now_created = t,
      io_count = None, now_count = t\<rparr>"

definition request :: "string \<Rightarrow> string \<Rightarrow> TransactionRequest" where
  "request trxID destination =
     \<lparr>req_Destination = destination, req_TrxID = trxID,
      req_Descriptions = ''top up'', req_Instructions = ''reply OK''\<rparr>"

definition empty_world :: world where
  "empty_world = \<lparr>repo = \<lparr>rows = [], seq = 0\<rparr>, trace = []\<rparr>"

text \<open>The store after \<open>TRX2\<close> was admitted at time 0 with a TTL of 1.\<close>

definition row_TRX2 :: TransactionRecord where
  "row_TRX2 =
     \<lparr>ID = 1, TrxID = ''TRX2'', MessageID = ''M1'',
      Destination = ''628111222333@s.whatsapp.net'', DestinationType = ''personal'',
      SentAt = 0, ExpiresAt = 1, CreatedAt = 0\<rparr>"

definition world_TRX2 :: world where
  "world_TRX2 = snd (ProcessTransaction (demo_service ''M1'' 1) (at_time 0)
                       (request ''TRX2'' ''0811-1222-333'') empty_world)"

text \<open>
  The store after \<open>TRX1\<close> was admitted at time 0 with a TTL of 86400, the transport
  having answered the send with the given message ID; and an environment at time 0 in
  which the insert fails in the driver.
\<close>

definition row_TRX1 :: "string \<Rightarrow> TransactionRecord" where
  "row_TRX1 handle =
     \<lparr>ID = 1, TrxID = ''TRX1'', MessageID = handle,
      Destination = ''628111222333@s.whatsapp.net'', DestinationType = ''personal'',
      SentAt = 0, ExpiresAt = 86400, CreatedAt = 0\<rparr>"

definition world_TRX1 :: "string \<Rightarrow> world" where
  "world_TRX1 handle = snd (ProcessTransaction (demo_service handle 86400) (at_time 0)
                              (request ''TRX1'' ''628111222333'') empty_world)"

definition save_fails :: admit_env where
  "save_fails = (at_time 0)\<lparr>io_save := Some ''disk I/O error''\<rparr>"

text \<open>
  To state what a delivery does: the trace without its log lines, the number of calls
  of \<open>send\<close> in a trace, and what attempt number \<open>i\<close> adds to the trace without
  its log lines (the sleep before a retry, then the call of \<open>send\<close>).
\<close>

definition effects :: "event list \<Rightarrow> event list" where
  "effects tr = filter (\<lambda>ev. case ev of Log l m fs \<Rightarrow> False | _ \<Rightarrow> True) tr"

definition sends :: "event list \<Rightarrow> nat" where
  "sends tr = length (filter (\<lambda>ev. case ev of WebhookSend p \<Rightarrow> True | _ \<Rightarrow> False) tr)"

definition retry_events :: "64 word \<Rightarrow> WebhookPayload \<Rightarrow> int \<Rightarrow> event list" where
  "retry_events conv payload i =
     (if i > 0 then [Sleep (sint (backoff conv i))] else []) @ [WebhookSend payload]"

text \<open>
  The last step of \<open>handleIncomingMessage\<close>, once the tracking record is chosen and the
  text is read: the call of \<open>SendWebhook\<close> with the payload built from the record, and
  the log line after it.
\<close>

definition deliver ::
  "OtomaxConfig \<Rightarrow> inbound_env \<Rightarrow> MessageEvent \<Rightarrow> TransactionRecord \<Rightarrow> string \<Rightarrow> world \<Rightarrow> run" where
  "deliver cfg e evt rec content w =
     (case SendWebhook cfg (webhook e) (build_payload evt rec content) (TrxID rec) w of
        (Some err, w1) \<Rightarrow>
          Return (emit (Log LError ''Failed to send webhook''
                    [(''trxid'', S (TrxID rec)), (''error'', E err),
                     (''from'', S (User (SenderJID (Info evt))))]) w1)
      | (None, w1) \<Rightarrow>
          Return (emit (Log LInfo ''Message received and forwarded to webhook''
                    [(''trxid'', S (TrxID rec)), (''from'', S (User (SenderJID (Info evt)))),
                     (''message'', S content)]) w1))"

text \<open>
  A payload, a dispatcher configuration with the given retry count, and an endpoint
  that answers every attempt with status 500.
\<close>

definition payload_demo :: WebhookPayload where
  "payload_demo =
     \<lparr>Event = ''message_received'',
      Sender = \<lparr>Phone = ''628111222333'', Name = ''Budi''\<rparr>,
      Message = \<lparr>Type = ''text'', Content = ''OK'', Timestamp = 50, MediaURL = []\<rparr>,
      Context = \<lparr>ChatType = ''personal'', IsReply = False, OriginalMessageID = ''M1'',
                  QuotedMessageContent = []\<rparr>\<rparr>"

definition otomax_retries :: "int \<Rightarrow> OtomaxConfig" where
  "otomax_retries n =
     \<lparr>WebhookURL = ''https://otomax.example/hook'', WebhookTimeout = 10000000000,
      RetryCount = n\<rparr>"

definition always_500 :: webhook_env where
  "always_500 = \<lparr>http = (\<lambda>n. Response 500), conv_overflow = 0\<rparr>"

text \<open>
  A store with three rows for one chat address (sent at 10, 20 and 30, the last one
  expired at 40) and one row for another address; an inbound text message on the first
  address, handled at time 50 by a service with a dispatcher and no whitelist.
\<close>

definition row_for :: "int \<Rightarrow> string \<Rightarrow> string \<Rightarrow> string \<Rightarrow> time \<Rightarrow> time \<Rightarrow> TransactionRecord" where
  "row_for i trxID messageID destination sent expires =
     \<lparr>ID = i, TrxID = trxID, MessageID = messageID, Destination = destination,
      DestinationType = ''personal'', SentAt = sent, ExpiresAt = expires, CreatedAt = sent\<rparr>"

definition world_replies :: world where
  "world_replies =
     \<lparr>repo = \<lparr>rows =
         [row_for 1 ''TRX-A'' ''M-A'' ''628111222333@s.whatsapp.net'' 10 100,
          row_for 2 ''TRX-B'' ''M-B'' ''628111222333@s.whatsapp.net'' 20 110,
          row_for 3 ''TRX-C'' ''M-C'' ''628111222333@s.whatsapp.net'' 30 40,
          row_for 4 ''TRX-D'' ''M-D'' ''628999888777@s.whatsapp.net'' 45 145],
        seq = 4\<rparr>,
      trace = []\<rparr>"

definition reply_OK :: MessageEvent where
  "reply_OK =
     \<lparr>Info = \<lparr>IsFromMe = False,
               Chat = \<lparr>User = ''628111222333'', Server = ''s.whatsapp.net''\<rparr>,
               SenderJID = \<lparr>User = ''628111222333'', Server = ''s.whatsapp.net''\<rparr>,
               PushName = ''Budi'', InfoTimestamp = 50\<rparr>,
      Msg = Message (Some ''OK'') None\<rparr>"

definition inbound_service :: WhatsAppService where
  "inbound_service = (demo_whatsapp ''M1'' [])\<lparr>otomaxService := Some (otomax_retries 3)\<rparr>"

definition inbound_at_50 :: inbound_env where
  "inbound_at_50 = \<lparr>io_dest = None, now_dest = 50, webhook = always_500\<rparr>"

text \<open>
  The normal form of a personal destination in the claim's words: all non-digit
  characters removed, leading zeros stripped, \<open>62\<close> put in front when it is not
  already there.
\<close>

definition normal_form :: "string \<Rightarrow> string" where
  "normal_form destination =
     (let digits = filter digit destination;
          stripped = dropWhile (\<lambda>c. c = CHR ''0'') digits
      in if take 2 stripped = ''62'' then stripped else ''62'' @ stripped)"

























section \<open>Properties: the correlation store\<close>

text \<open>The scan for the latest row, and facts on \<open>find\<close> and \<open>filter\<close> the reads rest on.\<close>

lemma latest_None_iff: "latest xs = None \<longleftrightarrow> xs = []"
  by (induction xs) (auto split: option.splits)

lemma latest_mem: "latest xs = Some x \<Longrightarrow> x \<in> set xs"
  by (induction xs arbitrary: x) (auto split: option.splits if_splits)

lemma latest_greatest: "latest xs = Some x \<Longrightarrow> y \<in> set xs \<Longrightarrow> SentAt y \<le> SentAt x"
proof (induction xs arbitrary: x)
  case Nil
  then show ?case by simp
next
  case (Cons a xs)
  show ?case
  proof (cases "latest xs")
    case None
    then have "xs = []" by (simp add: latest_None_iff)
    with Cons.prems None show ?thesis by simp
  next
    case (Some z)
    with Cons show ?thesis by (auto split: if_splits)
  qed
qed

lemma find_distinct_key:
  "distinct (map f xs) \<Longrightarrow> x \<in> set xs \<Longrightarrow> P x \<Longrightarrow> find (\<lambda>y. f y = f x \<and> P y) xs = Some x"
  by (induction xs) (auto simp: image_iff)

lemma find_key_None:
  "distinct (map f xs) \<Longrightarrow> x \<in> set xs \<Longrightarrow> \<not> P x \<Longrightarrow> find (\<lambda>y. f y = f x \<and> P y) xs = None"
  by (auto simp: find_None_iff distinct_map dest: inj_onD)

lemma filter_drop_row:
  "\<not> P x \<Longrightarrow> filter P (filter (\<lambda>y. y \<noteq> x) xs) = filter P xs"
  by (induction xs) auto

lemma find_drop_row:
  "\<not> P x \<Longrightarrow> find P (filter (\<lambda>y. y \<noteq> x) xs) = find P xs"
  by (induction xs) auto

lemma length_filter_one:
  "distinct xs \<Longrightarrow> x \<in> set xs \<Longrightarrow> P x \<Longrightarrow>
     length (filter P xs) = Suc (length (filter P (filter (\<lambda>y. y \<noteq> x) xs)))"
proof (induction xs)
  case Nil
  then show ?case by simp
next
  case (Cons a xs)
  show ?case
  proof (cases "a = x")
    case True
    with Cons.prems have "x \<notin> set xs" by simp
    then have "filter (\<lambda>y. y \<noteq> x) xs = xs" by (induction xs) auto
    with True Cons.prems show ?thesis by simp
  next
    case False
    with Cons show ?thesis by simp
  qed
qed

lemma filter_after_sweep:
  "(\<And>y. P y \<Longrightarrow> Q y) \<Longrightarrow> filter P (filter Q xs) = filter P xs"
  by (induction xs) auto

lemma find_after_sweep:
  "(\<And>y. P y \<Longrightarrow> Q y) \<Longrightarrow> find P (filter Q xs) = find P xs"
  by (induction xs) auto


lemma CleanupExpired_unique: "unique_trx_id r \<Longrightarrow> unique_trx_id (snd (CleanupExpired io c r))"
  by (auto simp: CleanupExpired_def unique_trx_id_def distinct_map_filter split: option.splits)

lemma active_lookup:
  assumes "row \<in> set (rows r)" "unique_trx_id r" "q < ExpiresAt row"
  shows "GetByTrxID None q r (TrxID row) = Inr (Some row)"
  using assms find_distinct_key [of TrxID "rows r" row "unexpired q"]
  by (simp add: GetByTrxID_def unique_trx_id_def unexpired_def)

lemma active_by_destination:
  assumes "row \<in> set (rows r)" "q < ExpiresAt row"
  shows "\<exists>x. GetByDestination None q r (Destination row) = Inr (Some x) \<and>
             x \<in> set (rows r) \<and> Destination x = Destination row \<and> q < ExpiresAt x \<and>
             SentAt row \<le> SentAt x"
proof -
  let ?c = "filter (\<lambda>y. Destination y = Destination row \<and> unexpired q y) (rows r)"
  from assms have mem: "row \<in> set ?c" by (simp add: unexpired_def)
  then have "?c \<noteq> []" by (metis empty_iff list.set(1))
  then have "latest ?c \<noteq> None" by (simp only: latest_None_iff not_False_eq_True)
  then obtain x where x: "latest ?c = Some x" by auto
  from latest_mem [OF x] have "x \<in> set (rows r)" "Destination x = Destination row" "q < ExpiresAt x"
    by (auto simp: unexpired_def)
  moreover from latest_greatest [OF x mem] have "SentAt row \<le> SentAt x" .
  ultimately show ?thesis using x by (simp add: GetByDestination_def)
qed

lemma active_counted:
  assumes "row \<in> set (rows r)" "unique_trx_id r" "q < ExpiresAt row"
  shows "fst (Count None q r) = fst (Count None q (without row r)) + 1"
proof -
  from assms(2) have "distinct (rows r)" by (auto simp: unique_trx_id_def distinct_map)
  from length_filter_one [OF this assms(1), of "unexpired q"] assms(3)
  show ?thesis by (simp add: Count_def without_def unexpired_def)
qed

lemma expired_as_deleted:
  assumes "ExpiresAt row \<le> q"
  shows "GetByTrxID None q (without row r) k = GetByTrxID None q r k"
    and "GetByDestination None q (without row r) d = GetByDestination None q r d"
    and "Count None q (without row r) = Count None q r"
proof -
  have gone: "\<And>P. \<not> (P row \<and> unexpired q row)"
    using assms by (simp add: unexpired_def)
  show "GetByTrxID None q (without row r) k = GetByTrxID None q r k"
    using find_drop_row [of "\<lambda>y. TrxID y = k \<and> unexpired q y" row "rows r"] gone
    by (simp add: GetByTrxID_def without_def)
  show "GetByDestination None q (without row r) d = GetByDestination None q r d"
    using filter_drop_row [of "\<lambda>y. Destination y = d \<and> unexpired q y" row "rows r"] gone
    by (simp add: GetByDestination_def without_def del: filter_filter)
  show "Count None q (without row r) = Count None q r"
    using filter_drop_row [of "unexpired q" row "rows r"] assms
    by (simp add: Count_def without_def unexpired_def del: filter_filter)
qed

lemma expired_lookup:
  assumes "row \<in> set (rows r)" "unique_trx_id r" "ExpiresAt row \<le> q"
  shows "GetByTrxID None q r (TrxID row) = Inr None"
  using assms find_key_None [of TrxID "rows r" row "unexpired q"]
  by (simp add: GetByTrxID_def unique_trx_id_def unexpired_def)

lemma sweep_keeps_unexpired:
  assumes "row \<in> set (rows r)" "c < ExpiresAt row"
  shows "row \<in> set (rows (snd (CleanupExpired None c r)))"
  using assms by (simp add: CleanupExpired_def)

lemma reads_after_sweep:
  assumes "c \<le> q"
  shows "GetByTrxID None q (snd (CleanupExpired None c r)) k = GetByTrxID None q r k"
    and "GetByDestination None q (snd (CleanupExpired None c r)) d = GetByDestination None q r d"
    and "Count None q (snd (CleanupExpired None c r)) = Count None q r"
proof -
  have a: "\<And>P. find (\<lambda>y. P y \<and> unexpired q y) (filter (\<lambda>y. \<not> ExpiresAt y \<le> c) (rows r))
             = find (\<lambda>y. P y \<and> unexpired q y) (rows r)"
    using assms by (intro find_after_sweep) (auto simp: unexpired_def)
  have b: "\<And>P. filter (\<lambda>y. P y \<and> unexpired q y) (filter (\<lambda>y. \<not> ExpiresAt y \<le> c) (rows r))
             = filter (\<lambda>y. P y \<and> unexpired q y) (rows r)"
    using assms by (intro filter_after_sweep) (auto simp: unexpired_def)
  show "GetByTrxID None q (snd (CleanupExpired None c r)) k = GetByTrxID None q r k"
    using a by (simp add: GetByTrxID_def CleanupExpired_def)
  show "GetByDestination None q (snd (CleanupExpired None c r)) d = GetByDestination None q r d"
    using b by (simp add: GetByDestination_def CleanupExpired_def)
  show "Count None q (snd (CleanupExpired None c r)) = Count None q r"
    using b [of "\<lambda>y. True"] by (simp add: Count_def CleanupExpired_def)
qed

text \<open>
  Claim C2. A row created with TTL \<open>T\<close> has \<open>expires_at = sent_at + T\<close>
  (\<open>ProcessTransaction\<close> builds it so). In a table that satisfies its \<open>UNIQUE\<close>
  constraint, at every query time \<open>q\<close> before \<open>sent_at + T\<close> the row is active for
  all three reads: the lookup by its transaction ID returns it, the lookup by its
  destination returns a row of that destination sent no earlier, the count includes it,
  and no sweep up to \<open>q\<close> deletes it. At every \<open>q\<close> from \<open>sent_at + T\<close> on it is
  inactive: the lookup by its transaction ID returns nothing, and all three reads answer
  exactly as on the table without the row. A sweep at any time up to \<open>q\<close> changes no
  answer of a read at \<open>q\<close>.
\<close>

theorem expiry_horizon:
  assumes "row \<in> set (rows r)" and "unique_trx_id r" and "ExpiresAt row = SentAt row + T"
  shows
    "(q < SentAt row + T \<longrightarrow>
        GetByTrxID None q r (TrxID row) = Inr (Some row) \<and>
        (\<exists>x. GetByDestination None q r (Destination row) = Inr (Some x) \<and>
             Destination x = Destination row \<and> SentAt row \<le> SentAt x) \<and>
        fst (Count None q r) = fst (Count None q (without row r)) + 1 \<and>
        (\<forall>c. c \<le> q \<longrightarrow> row \<in> set (rows (snd (CleanupExpired None c r))))) \<and>
     (SentAt row + T \<le> q \<longrightarrow>
        GetByTrxID None q r (TrxID row) = Inr None \<and>
        (\<forall>k. GetByTrxID None q (without row r) k = GetByTrxID None q r k) \<and>
        (\<forall>d. GetByDestination None q (without row r) d = GetByDestination None q r d) \<and>
        Count None q (without row r) = Count None q r) \<and>
     (\<forall>c. c \<le> q \<longrightarrow>
        (\<forall>k. GetByTrxID None q (snd (CleanupExpired None c r)) k = GetByTrxID None q r k) \<and>
        (\<forall>d. GetByDestination None q (snd (CleanupExpired None c r)) d
              = GetByDestination None q r d) \<and>
        Count None q (snd (CleanupExpired None c r)) = Count None q r)"
proof (intro conjI impI allI)
  assume "q < SentAt row + T"
  with assms have live: "q < ExpiresAt row" by simp
  show "GetByTrxID None q r (TrxID row) = Inr (Some row)"
    by (rule active_lookup [OF assms(1,2) live])
  show "\<exists>x. GetByDestination None q r (Destination row) = Inr (Some x) \<and>
             Destination x = Destination row \<and> SentAt row \<le> SentAt x"
    using active_by_destination [OF assms(1) live] by blast
  show "fst (Count None q r) = fst (Count None q (without row r)) + 1"
    by (rule active_counted [OF assms(1,2) live])
  fix c assume "c \<le> q"
  with live have "c < ExpiresAt row" by simp
  then show "row \<in> set (rows (snd (CleanupExpired None c r)))"
    by (rule sweep_keeps_unexpired [OF assms(1)])
next
  assume "SentAt row + T \<le> q"
  with assms have dead: "ExpiresAt row \<le> q" by simp
  show "GetByTrxID None q r (TrxID row) = Inr None"
    by (rule expired_lookup [OF assms(1,2) dead])
  show "Count None q (without row r) = Count None q r"
    by (rule expired_as_deleted(3) [OF dead])
  fix k show "GetByTrxID None q (without row r) k = GetByTrxID None q r k"
    by (rule expired_as_deleted(1) [OF dead])
next
  fix d assume "SentAt row + T \<le> q"
  with assms have dead: "ExpiresAt row \<le> q" by simp
  show "GetByDestination None q (without row r) d = GetByDestination None q r d"
    by (rule expired_as_deleted(2) [OF dead])
next
  fix c k assume "c \<le> q"
  then show "GetByTrxID None q (snd (CleanupExpired None c r)) k = GetByTrxID None q r k"
    by (rule reads_after_sweep(1))
next
  fix c d assume "c \<le> q"
  then show "GetByDestination None q (snd (CleanupExpired None c r)) d
              = GetByDestination None q r d"
    by (rule reads_after_sweep(2))
next
  fix c assume "c \<le> q"
  then show "Count None q (snd (CleanupExpired None c r)) = Count None q r"
    by (rule reads_after_sweep(3))
qed


lemma repo_world_TRX2: "repo world_TRX2 = \<lparr>rows = [row_TRX2], seq = 1\<rparr>"
  by (simp add: world_TRX2_def ProcessTransaction_def GetByTrxID_def ValidateDestination_def
      normalizePhoneNumber_def HasPrefix_def digit_def SendMessage_def Save_def Count_def
      emit_def demo_service_def demo_whatsapp_def demo_client_def at_time_def request_def empty_world_def
      row_TRX2_def NewJID_def JID_String_def DefaultUserServer_def Let_def)

theorem expiry_horizon_witness:
  "GetByTrxID None 0 (repo world_TRX2) ''TRX2'' = Inr (Some row_TRX2) \<and>
   GetByTrxID None 1 (repo world_TRX2) ''TRX2'' = Inr None \<and>
   fst (Count None 0 (repo world_TRX2)) = 1 \<and>
   fst (Count None 1 (repo world_TRX2)) = 0"
proof -
  have mem: "row_TRX2 \<in> set (rows (repo world_TRX2))"
    by (simp add: repo_world_TRX2)
  have uniq: "unique_trx_id (repo world_TRX2)"
    by (simp add: repo_world_TRX2 unique_trx_id_def)
  have ttl: "ExpiresAt row_TRX2 = SentAt row_TRX2 + 1"
    by (simp add: row_TRX2_def)
  have name: "TrxID row_TRX2 = ''TRX2''" and sent: "SentAt row_TRX2 = 0"
    by (simp_all add: row_TRX2_def)
  have gone: "without row_TRX2 (repo world_TRX2) = \<lparr>rows = [], seq = 1\<rparr>"
    by (simp add: without_def repo_world_TRX2)
  from expiry_horizon [OF mem uniq ttl, of 0] expiry_horizon [OF mem uniq ttl, of 1]
  show ?thesis
    by (simp add: name sent gone Count_def)
qed

section \<open>Properties: the whitelist filter\<close>

lemma isWhitelisted_loop_iff: "isWhitelisted_loop wl jid \<longleftrightarrow> jid \<in> set wl"
  by (induction wl) auto

text \<open>
  Claim C7. The whitelist check of the inbound handler is a function of the configured
  list and the chat address alone. With an empty list every address passes; with a
  non-empty list an address passes exactly when some configured entry is equal to it,
  byte for byte.
\<close>

theorem whitelist_default_open:
  "(webhookWhitelist s = [] \<longrightarrow> whitelist_passes s jid) \<and>
   (webhookWhitelist s \<noteq> [] \<longrightarrow>
      (whitelist_passes s jid \<longleftrightarrow> (\<exists>entry \<in> set (webhookWhitelist s). entry = jid)))"
  by (simp add: whitelist_passes_def isWhitelisted_def isWhitelisted_loop_iff)

theorem whitelist_default_open_witness:
  "whitelist_passes (demo_whatsapp ''M1'' []) ''628111222333@s.whatsapp.net'' \<and>
   whitelist_passes (demo_whatsapp ''M1'' [''120363@g.us'', ''628111222333@s.whatsapp.net''])
     ''628111222333@s.whatsapp.net'' \<and>
   \<not> whitelist_passes (demo_whatsapp ''M1'' [''120363@g.us'', ''628111222333@s.whatsapp.net''])
     ''628111222333@s.whatsapp.ne''"
  using whitelist_default_open [of "demo_whatsapp ''M1'' []" "''628111222333@s.whatsapp.net''"]
    whitelist_default_open
      [of "demo_whatsapp ''M1'' [''120363@g.us'', ''628111222333@s.whatsapp.net'']"
        "''628111222333@s.whatsapp.net''"]
    whitelist_default_open
      [of "demo_whatsapp ''M1'' [''120363@g.us'', ''628111222333@s.whatsapp.net'']"
        "''628111222333@s.whatsapp.ne''"]
  by (simp add: demo_whatsapp_def)

section \<open>Properties: the dedup gate\<close>

text \<open>\<open>ProcessTransaction\<close>, outcome by outcome.\<close>

lemma SendMessage_repo: "SendMessage s to text w = (res, w1) \<Longrightarrow> repo w1 = repo w"
  by (auto simp: SendMessage_def emit_def split: sum.splits if_splits)

lemma Save_failed: "Save io c r record = (Some err, r1) \<Longrightarrow> r1 = r"
  by (auto simp: Save_def split: option.splits if_splits)

lemma ProcessTransaction_duplicate:
  assumes "GetByTrxID (io_lookup e) (now_lookup e) (repo w) (req_TrxID req) = Inr (Some existing)"
  shows "ProcessTransaction s e req w =
           (Inl (DuplicateTransaction (req_TrxID req) (SentAt existing)), w)"
  using assms by (simp add: ProcessTransaction_def)

lemma ProcessTransaction_lookup_failed:
  assumes "GetByTrxID (io_lookup e) (now_lookup e) (repo w) (req_TrxID req) = Inl err"
  shows "ProcessTransaction s e req w = (Inl (CheckExistingFailed err), w)"
  using assms by (simp add: ProcessTransaction_def)

lemma ProcessTransaction_invalid:
  assumes "GetByTrxID (io_lookup e) (now_lookup e) (repo w) (req_TrxID req) = Inr None"
    and "ValidateDestination (whatsappService s) (req_Destination req) = Inl err"
  shows "ProcessTransaction s e req w = (Inl (InvalidDestination err), w)"
  using assms by (simp add: ProcessTransaction_def)

lemma ProcessTransaction_send_failed:
  assumes "GetByTrxID (io_lookup e) (now_lookup e) (repo w) (req_TrxID req) = Inr None"
    and "ValidateDestination (whatsappService s) (req_Destination req) = Inr (jid, destType)"
    and "SendMessage (whatsappService s) jid (req_Instructions req) w = (Inl err, w1)"
  shows "ProcessTransaction s e req w = (Inl (SendFailed err), w1)"
  using assms by (simp add: ProcessTransaction_def)

lemma ProcessTransaction_sent:
  assumes "GetByTrxID (io_lookup e) (now_lookup e) (repo w) (req_TrxID req) = Inr None"
    and "ValidateDestination (whatsappService s) (req_Destination req) = Inr (jid, destType)"
    and "SendMessage (whatsappService s) jid (req_Instructions req) w = (Inr messageID, w1)"
    and "Save (io_save e) (now_created e) (repo w)
           \<lparr>ID = 0, TrxID = req_TrxID req, MessageID = messageID,
            Destination = JID_String jid, DestinationType = destType,
            SentAt = now_sent e, ExpiresAt = now_sent e + ttl s, CreatedAt = 0\<rparr> = (saved, r1)"
  shows "fst (ProcessTransaction s e req w) =
           Inr \<lparr>data_TrxID = req_TrxID req, data_Destination = JID_String jid,
                data_DestinationType = destType, data_MessageID = messageID,
                data_Timestamp = now_sent e\<rparr>"
    and "repo (snd (ProcessTransaction s e req w)) = r1"
    and "saved = Some err \<Longrightarrow>
           Log LError ''Failed to save transaction to database''
             [(''trxid'', S (req_TrxID req)), (''error'', E err)]
           \<in> set (trace (snd (ProcessTransaction s e req w)))"
    and "ClientSendMessage jid (req_Instructions req)
           \<in> set (trace (snd (ProcessTransaction s e req w)))"
proof -
  from assms(3) have r: "repo w1 = repo w" by (rule SendMessage_repo)
  from assms(3) have sent: "ClientSendMessage jid (req_Instructions req) \<in> set (trace w1)"
    by (auto simp: SendMessage_def emit_def split: if_splits sum.splits)
  show "fst (ProcessTransaction s e req w) =
           Inr \<lparr>data_TrxID = req_TrxID req, data_Destination = JID_String jid,
                data_DestinationType = destType, data_MessageID = messageID,
                data_Timestamp = now_sent e\<rparr>"
    using assms r by (simp add: ProcessTransaction_def Let_def split: prod.splits)
  show "repo (snd (ProcessTransaction s e req w)) = r1"
    using assms r
    by (simp add: ProcessTransaction_def Let_def emit_def split: prod.splits option.splits)
  show "ClientSendMessage jid (req_Instructions req)
           \<in> set (trace (snd (ProcessTransaction s e req w)))"
    using assms r sent
    by (simp add: ProcessTransaction_def Let_def emit_def split: prod.splits option.splits)
  assume "saved = Some err"
  then show "Log LError ''Failed to save transaction to database''
             [(''trxid'', S (req_TrxID req)), (''error'', E err)]
           \<in> set (trace (snd (ProcessTransaction s e req w)))"
    using assms r
    by (simp add: ProcessTransaction_def Let_def emit_def split: prod.splits option.splits)
qed

lemma ProcessTransaction_error_iff:
  "isl (fst (ProcessTransaction s e req w)) \<longleftrightarrow>
      GetByTrxID (io_lookup e) (now_lookup e) (repo w) (req_TrxID req) \<noteq> Inr None
    \<or> isl (ValidateDestination (whatsappService s) (req_Destination req))
    \<or> (\<exists>jid destType.
          ValidateDestination (whatsappService s) (req_Destination req) = Inr (jid, destType)
          \<and> isl (fst (SendMessage (whatsappService s) jid (req_Instructions req) w)))"
  by (auto simp: ProcessTransaction_def Let_def split: sum.splits option.splits prod.splits)

lemma ProcessTransaction_error_repo:
  assumes "isl (fst (ProcessTransaction s e req w))"
  shows "repo (snd (ProcessTransaction s e req w)) = repo w"
  using assms
  by (auto simp: ProcessTransaction_def Let_def
      split: sum.splits option.splits prod.splits dest: SendMessage_repo)

lemma ProcessTransaction_result_ignores_save:
  "fst (ProcessTransaction s (e\<lparr>io_save := f, now_created := c\<rparr>) req w)
     = fst (ProcessTransaction s e req w)"
  by (auto simp: ProcessTransaction_def Let_def split: sum.splits option.splits prod.splits)

lemmas run_admit =
  ProcessTransaction_def GetByTrxID_def ValidateDestination_def normalizePhoneNumber_def
  HasPrefix_def digit_def SendMessage_def Save_def Count_def emit_def unexpired_def
  demo_service_def demo_whatsapp_def demo_client_def at_time_def request_def empty_world_def
  NewJID_def JID_String_def DefaultUserServer_def Let_def

lemma repo_world_TRX1: "repo (world_TRX1 handle) = \<lparr>rows = [row_TRX1 handle], seq = 1\<rparr>"
  by (simp add: world_TRX1_def row_TRX1_def run_admit)

text \<open>
  Claim C1, as the code has it. When the table holds an active row for the request's
  transaction ID and the lookup runs, \<open>ProcessTransaction\<close> fails with the
  duplicate-transaction error, which carries the transaction ID and the row's
  \<open>sent_at\<close>; the state is returned as it was, so nothing is sent and nothing is
  written. The request's destination plays no part: it is not even validated.
\<close>

theorem duplicate_rejected:
  assumes "row \<in> set (rows (repo w))" and "unique_trx_id (repo w)"
    and "TrxID row = req_TrxID req" and "now_lookup e < ExpiresAt row"
    and "io_lookup e = None"
  shows "ProcessTransaction s e req w =
           (Inl (DuplicateTransaction (req_TrxID req) (SentAt row)), w)"
proof -
  from active_lookup [OF assms(1,2,4)] assms(3,5)
  have "GetByTrxID (io_lookup e) (now_lookup e) (repo w) (req_TrxID req) = Inr (Some row)"
    by simp
  then show ?thesis by (rule ProcessTransaction_duplicate)
qed

theorem duplicate_rejected_witness:
  "ProcessTransaction (demo_service ''M9'' 86400) (at_time 5) (request ''TRX1'' ''628222'')
     (world_TRX1 ''M1'')
   = (Inl (DuplicateTransaction ''TRX1'' 0), world_TRX1 ''M1'')"
proof -
  have "row_TRX1 ''M1'' \<in> set (rows (repo (world_TRX1 ''M1'')))"
    by (simp add: repo_world_TRX1)
  moreover have "unique_trx_id (repo (world_TRX1 ''M1''))"
    by (simp add: repo_world_TRX1 unique_trx_id_def)
  moreover have "TrxID (row_TRX1 ''M1'') = req_TrxID (request ''TRX1'' ''628222'')"
    by (simp add: row_TRX1_def request_def)
  moreover have "now_lookup (at_time 5) < ExpiresAt (row_TRX1 ''M1'')"
    by (simp add: row_TRX1_def at_time_def)
  moreover have "io_lookup (at_time 5) = None"
    by (simp add: at_time_def)
  ultimately have "ProcessTransaction (demo_service ''M9'' 86400) (at_time 5)
      (request ''TRX1'' ''628222'') (world_TRX1 ''M1'')
    = (Inl (DuplicateTransaction (req_TrxID (request ''TRX1'' ''628222''))
         (SentAt (row_TRX1 ''M1''))), world_TRX1 ''M1'')"
    by (rule duplicate_rejected)
  then show ?thesis by (simp add: row_TRX1_def request_def)
qed

text \<open>
  Claim C1 as stated fails in one point: the error does not carry the existing row's
  message ID. Two stores whose rows for \<open>TRX1\<close> differ in the message ID only
  (\<open>M1\<close>, \<open>M2\<close>) answer the same duplicate request with the same error.
\<close>

theorem duplicate_error_without_handle:
  "GetByTrxID None 5 (repo (world_TRX1 ''M1'')) ''TRX1'' = Inr (Some (row_TRX1 ''M1'')) \<and>
   GetByTrxID None 5 (repo (world_TRX1 ''M2'')) ''TRX1'' = Inr (Some (row_TRX1 ''M2'')) \<and>
   MessageID (row_TRX1 ''M1'') = ''M1'' \<and> MessageID (row_TRX1 ''M2'') = ''M2'' \<and>
   fst (ProcessTransaction (demo_service ''M9'' 86400) (at_time 5)
          (request ''TRX1'' ''628222'') (world_TRX1 ''M1''))
     = Inl (DuplicateTransaction ''TRX1'' 0) \<and>
   fst (ProcessTransaction (demo_service ''M9'' 86400) (at_time 5)
          (request ''TRX1'' ''628222'') (world_TRX1 ''M2''))
     = Inl (DuplicateTransaction ''TRX1'' 0)"
  by (simp add: repo_world_TRX1 ProcessTransaction_def GetByTrxID_def unexpired_def
      row_TRX1_def at_time_def request_def)

text \<open>
  Claim C5. \<open>ProcessTransaction\<close> returns an error exactly when the lookup for a
  duplicate does not come back empty (it fails, or finds an active row), or the
  destination is not valid, or the send fails; and then the table is as it was. When the
  send has succeeded and the insert fails, the call still returns the success result,
  the table is as it was, and the failure is in the log; the returned result is the
  same whatever the driver does with the insert.
\<close>

theorem errors_surface_only_before_send:
  "(isl (fst (ProcessTransaction s e req w)) \<longleftrightarrow>
      GetByTrxID (io_lookup e) (now_lookup e) (repo w) (req_TrxID req) \<noteq> Inr None
    \<or> isl (ValidateDestination (whatsappService s) (req_Destination req))
    \<or> (\<exists>jid destType.
          ValidateDestination (whatsappService s) (req_Destination req) = Inr (jid, destType)
          \<and> isl (fst (SendMessage (whatsappService s) jid (req_Instructions req) w)))) \<and>
   (isl (fst (ProcessTransaction s e req w)) \<longrightarrow>
      repo (snd (ProcessTransaction s e req w)) = repo w) \<and>
   (\<forall>jid destType messageID w1 err r1.
      GetByTrxID (io_lookup e) (now_lookup e) (repo w) (req_TrxID req) = Inr None \<and>
      ValidateDestination (whatsappService s) (req_Destination req) = Inr (jid, destType) \<and>
      SendMessage (whatsappService s) jid (req_Instructions req) w = (Inr messageID, w1) \<and>
      Save (io_save e) (now_created e) (repo w)
        \<lparr>ID = 0, TrxID = req_TrxID req, MessageID = messageID,
         Destination = JID_String jid, DestinationType = destType,
         SentAt = now_sent e, ExpiresAt = now_sent e + ttl s, CreatedAt = 0\<rparr> = (Some err, r1)
      \<longrightarrow>
        fst (ProcessTransaction s e req w) =
          Inr \<lparr>data_TrxID = req_TrxID req, data_Destination = JID_String jid,
               data_DestinationType = destType, data_MessageID = messageID,
               data_Timestamp = now_sent e\<rparr> \<and>
        repo (snd (ProcessTransaction s e req w)) = repo w \<and>
        Log LError ''Failed to save transaction to database''
          [(''trxid'', S (req_TrxID req)), (''error'', E err)]
          \<in> set (trace (snd (ProcessTransaction s e req w)))) \<and>
   (\<forall>f c. fst (ProcessTransaction s (e\<lparr>io_save := f, now_created := c\<rparr>) req w)
            = fst (ProcessTransaction s e req w))"
proof (intro conjI allI impI)
  show "isl (fst (ProcessTransaction s e req w)) \<longleftrightarrow>
      GetByTrxID (io_lookup e) (now_lookup e) (repo w) (req_TrxID req) \<noteq> Inr None
    \<or> isl (ValidateDestination (whatsappService s) (req_Destination req))
    \<or> (\<exists>jid destType.
          ValidateDestination (whatsappService s) (req_Destination req) = Inr (jid, destType)
          \<and> isl (fst (SendMessage (whatsappService s) jid (req_Instructions req) w)))"
    by (rule ProcessTransaction_error_iff)
next
  assume "isl (fst (ProcessTransaction s e req w))"
  then show "repo (snd (ProcessTransaction s e req w)) = repo w"
    by (rule ProcessTransaction_error_repo)
next
  fix f c
  show "fst (ProcessTransaction s (e\<lparr>io_save := f, now_created := c\<rparr>) req w)
          = fst (ProcessTransaction s e req w)"
    by (rule ProcessTransaction_result_ignores_save)
next
  fix jid destType messageID w1 err r1
  assume a: "GetByTrxID (io_lookup e) (now_lookup e) (repo w) (req_TrxID req) = Inr None \<and>
      ValidateDestination (whatsappService s) (req_Destination req) = Inr (jid, destType) \<and>
      SendMessage (whatsappService s) jid (req_Instructions req) w = (Inr messageID, w1) \<and>
      Save (io_save e) (now_created e) (repo w)
        \<lparr>ID = 0, TrxID = req_TrxID req, MessageID = messageID,
         Destination = JID_String jid, DestinationType = destType,
         SentAt = now_sent e, ExpiresAt = now_sent e + ttl s, CreatedAt = 0\<rparr> = (Some err, r1)"
  then have r1: "r1 = repo w" by (blast dest: Save_failed)
  from a have l: "GetByTrxID (io_lookup e) (now_lookup e) (repo w) (req_TrxID req) = Inr None"
    and v: "ValidateDestination (whatsappService s) (req_Destination req) = Inr (jid, destType)"
    and m: "SendMessage (whatsappService s) jid (req_Instructions req) w = (Inr messageID, w1)"
    and sv: "Save (io_save e) (now_created e) (repo w)
        \<lparr>ID = 0, TrxID = req_TrxID req, MessageID = messageID,
         Destination = JID_String jid, DestinationType = destType,
         SentAt = now_sent e, ExpiresAt = now_sent e + ttl s, CreatedAt = 0\<rparr> = (Some err, r1)"
    by simp_all
  show "fst (ProcessTransaction s e req w) =
          Inr \<lparr>data_TrxID = req_TrxID req, data_Destination = JID_String jid,
               data_DestinationType = destType, data_MessageID = messageID,
               data_Timestamp = now_sent e\<rparr>"
    by (rule ProcessTransaction_sent(1) [OF l v m sv])
  show "repo (snd (ProcessTransaction s e req w)) = repo w"
    using ProcessTransaction_sent(2) [OF l v m sv] r1 by simp
  show "Log LError ''Failed to save transaction to database''
          [(''trxid'', S (req_TrxID req)), (''error'', E err)]
          \<in> set (trace (snd (ProcessTransaction s e req w)))"
    by (rule ProcessTransaction_sent(3) [OF l v m sv refl])
qed

theorem errors_surface_only_before_send_witness:
  "fst (ProcessTransaction (demo_service ''M1'' 86400) save_fails
          (request ''TRX1'' ''628111222333'') empty_world)
     = Inr \<lparr>data_TrxID = ''TRX1'', data_Destination = ''628111222333@s.whatsapp.net'',
            data_DestinationType = ''personal'', data_MessageID = ''M1'',
            data_Timestamp = 0\<rparr> \<and>
   repo (snd (ProcessTransaction (demo_service ''M1'' 86400) save_fails
          (request ''TRX1'' ''628111222333'') empty_world)) = repo empty_world \<and>
   Log LError ''Failed to save transaction to database''
     [(''trxid'', S ''TRX1''), (''error'', E (Driver ''disk I/O error''))]
     \<in> set (trace (snd (ProcessTransaction (demo_service ''M1'' 86400) save_fails
          (request ''TRX1'' ''628111222333'') empty_world))) \<and>
   isl (fst (ProcessTransaction (demo_service ''M9'' 86400) (at_time 5)
          (request ''TRX1'' ''628222'') (world_TRX1 ''M1''))) \<and>
   repo (snd (ProcessTransaction (demo_service ''M9'' 86400) (at_time 5)
          (request ''TRX1'' ''628222'') (world_TRX1 ''M1''))) = repo (world_TRX1 ''M1'')"
proof -
  let ?s = "demo_service ''M1'' 86400" and ?req = "request ''TRX1'' ''628111222333''"
  let ?jid = "NewJID ''628111222333'' DefaultUserServer"
  have l: "GetByTrxID (io_lookup save_fails) (now_lookup save_fails) (repo empty_world)
             (req_TrxID ?req) = Inr None"
    by (simp add: GetByTrxID_def save_fails_def at_time_def empty_world_def)
  have v: "ValidateDestination (whatsappService ?s) (req_Destination ?req)
           = Inr (?jid, ''personal'')"
    by (simp add: ValidateDestination_def normalizePhoneNumber_def HasPrefix_def digit_def
        demo_service_def demo_whatsapp_def demo_client_def request_def Let_def)
  have m: "SendMessage (whatsappService ?s) ?jid (req_Instructions ?req) empty_world
           = (Inr ''M1'', emit (ClientSendMessage ?jid (req_Instructions ?req)) empty_world)"
    by (simp add: SendMessage_def demo_service_def demo_whatsapp_def demo_client_def)
  have sv: "Save (io_save save_fails) (now_created save_fails) (repo empty_world)
        \<lparr>ID = 0, TrxID = req_TrxID ?req, MessageID = ''M1'',
         Destination = JID_String ?jid, DestinationType = ''personal'',
         SentAt = now_sent save_fails, ExpiresAt = now_sent save_fails + ttl ?s,
         CreatedAt = 0\<rparr>
        = (Some (Driver ''disk I/O error''), repo empty_world)"
    by (simp add: Save_def save_fails_def at_time_def)
  note logged = errors_surface_only_before_send [of ?s save_fails ?req empty_world,
      THEN conjunct2, THEN conjunct2, THEN conjunct1, rule_format,
      OF conjI [OF l conjI [OF v conjI [OF m sv]]]]
  let ?dup = "ProcessTransaction (demo_service ''M9'' 86400) (at_time 5)
          (request ''TRX1'' ''628222'') (world_TRX1 ''M1'')"
  have d: "isl (fst ?dup)"
    by (simp add: repo_world_TRX1 ProcessTransaction_def GetByTrxID_def unexpired_def
        row_TRX1_def at_time_def request_def)
  note kept = errors_surface_only_before_send [of "demo_service ''M9'' 86400" "at_time 5"
      "request ''TRX1'' ''628222''" "world_TRX1 ''M1''", THEN conjunct2, THEN conjunct1,
      rule_format, OF d]
  from logged kept d show ?thesis
    by (simp add: request_def save_fails_def at_time_def NewJID_def JID_String_def
        DefaultUserServer_def)
qed

text \<open>
  Claim C3 at the spec's own scenario. \<open>TRX2\<close> was admitted at time 0 with a TTL
  of 1 and no sweep has run. At time 2 the lookup finds no active row, the second admit
  sends the message and returns success, but its insert fails on the \<open>UNIQUE\<close>
  constraint against the expired row: the table is unchanged and the lookup still finds
  nothing.
\<close>

theorem expired_id_reuse_not_recorded:
  "GetByTrxID None 2 (repo world_TRX2) ''TRX2'' = Inr None \<and>
   fst (ProcessTransaction (demo_service ''M2'' 1) (at_time 2)
          (request ''TRX2'' ''0811-1222-333'') world_TRX2)
     = Inr \<lparr>data_TrxID = ''TRX2'', data_Destination = ''628111222333@s.whatsapp.net'',
            data_DestinationType = ''personal'', data_MessageID = ''M2'',
            data_Timestamp = 2\<rparr> \<and>
   repo (snd (ProcessTransaction (demo_service ''M2'' 1) (at_time 2)
          (request ''TRX2'' ''0811-1222-333'') world_TRX2)) = repo world_TRX2 \<and>
   GetByTrxID None 2
     (repo (snd (ProcessTransaction (demo_service ''M2'' 1) (at_time 2)
          (request ''TRX2'' ''0811-1222-333'') world_TRX2))) ''TRX2'' = Inr None \<and>
   Log LError ''Failed to save transaction to database''
     [(''trxid'', S ''TRX2''), (''error'', E (UniqueConstraint ''transactions.trx_id''))]
     \<in> set (trace (snd (ProcessTransaction (demo_service ''M2'' 1) (at_time 2)
          (request ''TRX2'' ''0811-1222-333'') world_TRX2)))"
proof -
  have l: "GetByTrxID (io_lookup (at_time 2)) (now_lookup (at_time 2)) (repo world_TRX2)
             (req_TrxID (request ''TRX2'' ''0811-1222-333'')) = Inr None"
    by (simp add: repo_world_TRX2 GetByTrxID_def unexpired_def row_TRX2_def at_time_def
        request_def)
  have v: "ValidateDestination (whatsappService (demo_service ''M2'' 1))
             (req_Destination (request ''TRX2'' ''0811-1222-333''))
           = Inr (NewJID ''628111222333'' DefaultUserServer, ''personal'')"
    by (simp add: ValidateDestination_def normalizePhoneNumber_def HasPrefix_def digit_def
        demo_service_def demo_whatsapp_def demo_client_def request_def Let_def)
  have m: "SendMessage (whatsappService (demo_service ''M2'' 1))
             (NewJID ''628111222333'' DefaultUserServer)
             (req_Instructions (request ''TRX2'' ''0811-1222-333'')) world_TRX2
           = (Inr ''M2'', emit (ClientSendMessage (NewJID ''628111222333'' DefaultUserServer)
                (req_Instructions (request ''TRX2'' ''0811-1222-333''))) world_TRX2)"
    by (simp add: SendMessage_def demo_service_def demo_whatsapp_def demo_client_def)
  have sv: "Save (io_save (at_time 2)) (now_created (at_time 2)) (repo world_TRX2)
        \<lparr>ID = 0, TrxID = req_TrxID (request ''TRX2'' ''0811-1222-333''), MessageID = ''M2'',
         Destination = JID_String (NewJID ''628111222333'' DefaultUserServer),
         DestinationType = ''personal'',
         SentAt = now_sent (at_time 2),
         ExpiresAt = now_sent (at_time 2) + ttl (demo_service ''M2'' 1), CreatedAt = 0\<rparr>
        = (Some (UniqueConstraint ''transactions.trx_id''), repo world_TRX2)"
    by (simp add: Save_def repo_world_TRX2 row_TRX2_def at_time_def request_def)
  note sent = ProcessTransaction_sent [OF l v m sv]
  have "GetByTrxID None 2 (repo world_TRX2) ''TRX2'' = Inr None"
    using l by (simp add: at_time_def request_def)
  with sent(1) sent(2) sent(3) [OF refl] show ?thesis
    by (simp add: request_def at_time_def NewJID_def JID_String_def DefaultUserServer_def)
qed

text \<open>
  What holds instead: when no row of the table, expired or not, has the transaction ID
  (after the sweep has deleted it), a successful admit is recorded and found.
\<close>

lemma find_snoc_new: "(\<And>y. y \<in> set xs \<Longrightarrow> \<not> P y) \<Longrightarrow> P x \<Longrightarrow> find P (xs @ [x]) = Some x"
  by (induction xs) auto

lemma admit_recorded:
  assumes "GetByTrxID (io_lookup e) (now_lookup e) (repo w) (req_TrxID req) = Inr None"
    and "ValidateDestination (whatsappService s) (req_Destination req) = Inr (jid, destType)"
    and "SendMessage (whatsappService s) jid (req_Instructions req) w = (Inr messageID, w1)"
    and "io_save e = None"
    and "req_TrxID req \<notin> set (map TrxID (rows (repo w)))"
    and "q < now_sent e + ttl s"
  shows "GetByTrxID None q (repo (snd (ProcessTransaction s e req w))) (req_TrxID req) =
           Inr (Some \<lparr>ID = seq (repo w) + 1, TrxID = req_TrxID req, MessageID = messageID,
                      Destination = JID_String jid, DestinationType = destType,
                      SentAt = now_sent e, ExpiresAt = now_sent e + ttl s,
                      CreatedAt = now_created e\<rparr>)"
proof -
  let ?new = "\<lparr>ID = 0, TrxID = req_TrxID req, MessageID = messageID,
            Destination = JID_String jid, DestinationType = destType,
            SentAt = now_sent e, ExpiresAt = now_sent e + ttl s, CreatedAt = 0\<rparr>"
  let ?row = "?new\<lparr>ID := seq (repo w) + 1, CreatedAt := now_created e\<rparr>"
  have sv: "Save (io_save e) (now_created e) (repo w) ?new
      = (None, (repo w)\<lparr>rows := rows (repo w) @ [?row], seq := seq (repo w) + 1\<rparr>)"
    using assms(4,5) by (simp add: Save_def)
  have "find (\<lambda>y. TrxID y = req_TrxID req \<and> unexpired q y) (rows (repo w) @ [?row]) = Some ?row"
    using assms(5,6) by (intro find_snoc_new) (auto simp: unexpired_def image_iff)
  with ProcessTransaction_sent(2) [OF assms(1,2,3) sv] show ?thesis
    by (simp add: GetByTrxID_def)
qed

section \<open>Properties: the reply correlator\<close>

lemma GetByDestination_Some:
  assumes "GetByDestination None now r d = Inr (Some x)"
  shows "x \<in> set (rows r) \<and> Destination x = d \<and> now < ExpiresAt x \<and>
         (\<forall>y\<in>set (rows r). Destination y = d \<and> now < ExpiresAt y \<longrightarrow> SentAt y \<le> SentAt x)"
proof -
  let ?c = "filter (\<lambda>row. Destination row = d \<and> unexpired now row) (rows r)"
  from assms have x: "latest ?c = Some x" by (simp add: GetByDestination_def)
  from latest_mem [OF x] have "x \<in> set (rows r)" "Destination x = d" "now < ExpiresAt x"
    by (simp_all add: unexpired_def)
  moreover have "SentAt y \<le> SentAt x"
    if "y \<in> set (rows r)" "Destination y = d" "now < ExpiresAt y" for y
    using latest_greatest [OF x, of y] that by (simp add: unexpired_def)
  ultimately show ?thesis by blast
qed

lemma GetByDestination_None:
  "GetByDestination None now r d = Inr None \<longleftrightarrow>
     \<not> (\<exists>y\<in>set (rows r). Destination y = d \<and> now < ExpiresAt y)"
  by (simp add: GetByDestination_def latest_None_iff filter_empty_conv unexpired_def)

lemma build_payload_context:
  "ChatType (Context (build_payload evt rec content)) = DestinationType rec"
  "OriginalMessageID (Context (build_payload evt rec content)) =
     (case ExtendedTextMessage (Msg evt) of
        None \<Rightarrow> MessageID rec
      | Some ext \<Rightarrow>
          (case ContextInfo ext of
             None \<Rightarrow> MessageID rec
           | Some ci \<Rightarrow> (case StanzaID ci of None \<Rightarrow> MessageID rec | Some sid \<Rightarrow> sid)))"
  by (simp_all add: build_payload_def Let_def split: option.splits)

text \<open>
  Claim C4. Take an inbound event that is not the account's own, whose chat address
  \<open>A\<close> passes the whitelist check, with the repository set and the lookup running,
  a dispatcher set and the message text present. If the table holds no active row with
  destination \<open>A\<close>, the handler returns and delivers nothing. If it holds one, the
  handler delivers the payload built from a row \<open>chosen\<close> of the table that has
  destination \<open>A\<close>, is active, and whose \<open>sent_at\<close> is not before that of any
  active row with destination \<open>A\<close>: among several active rows the latest wins. The
  payload takes its chat type from that row, and its original message ID too unless the
  message quotes another one.
\<close>

theorem correlation_selects_latest:
  assumes "\<not> IsFromMe (Info evt)" and "whitelist_passes s (JID_String (Chat (Info evt)))"
    and "repo_set s" and "io_dest e = None"
    and "otomaxService s = Some cfg" and "messageContent_of (Msg evt) = Some content"
  shows
    "((\<forall>r\<in>set (rows (repo w)).
         \<not> (Destination r = JID_String (Chat (Info evt)) \<and> now_dest e < ExpiresAt r)) \<longrightarrow>
        handleIncomingMessage s e evt w = Return w) \<and>
     ((\<exists>r\<in>set (rows (repo w)).
         Destination r = JID_String (Chat (Info evt)) \<and> now_dest e < ExpiresAt r) \<longrightarrow>
        (\<exists>chosen\<in>set (rows (repo w)).
           Destination chosen = JID_String (Chat (Info evt)) \<and> now_dest e < ExpiresAt chosen \<and>
           (\<forall>r\<in>set (rows (repo w)).
              Destination r = JID_String (Chat (Info evt)) \<and> now_dest e < ExpiresAt r
              \<longrightarrow> SentAt r \<le> SentAt chosen) \<and>
           handleIncomingMessage s e evt w = deliver cfg e evt chosen content w \<and>
           ChatType (Context (build_payload evt chosen content)) = DestinationType chosen \<and>
           (ExtendedTextMessage (Msg evt) = None \<longrightarrow>
              OriginalMessageID (Context (build_payload evt chosen content))
                = MessageID chosen)))"
proof (intro conjI impI)
  assume "\<forall>r\<in>set (rows (repo w)).
         \<not> (Destination r = JID_String (Chat (Info evt)) \<and> now_dest e < ExpiresAt r)"
  then have "GetByDestination None (now_dest e) (repo w) (JID_String (Chat (Info evt))) = Inr None"
    by (simp add: GetByDestination_None)
  with assms show "handleIncomingMessage s e evt w = Return w"
    by (simp add: handleIncomingMessage_def)
next
  assume "\<exists>r\<in>set (rows (repo w)).
         Destination r = JID_String (Chat (Info evt)) \<and> now_dest e < ExpiresAt r"
  then have "GetByDestination None (now_dest e) (repo w) (JID_String (Chat (Info evt))) \<noteq> Inr None"
    by (simp add: GetByDestination_None)
  then obtain chosen where
    c: "GetByDestination None (now_dest e) (repo w) (JID_String (Chat (Info evt))) = Inr (Some chosen)"
    by (auto simp: GetByDestination_def)
  from assms c have "handleIncomingMessage s e evt w = deliver cfg e evt chosen content w"
    by (simp add: handleIncomingMessage_def deliver_def)
  with GetByDestination_Some [OF c] build_payload_context [of evt chosen content]
  show "\<exists>chosen\<in>set (rows (repo w)).
           Destination chosen = JID_String (Chat (Info evt)) \<and> now_dest e < ExpiresAt chosen \<and>
           (\<forall>r\<in>set (rows (repo w)).
              Destination r = JID_String (Chat (Info evt)) \<and> now_dest e < ExpiresAt r
              \<longrightarrow> SentAt r \<le> SentAt chosen) \<and>
           handleIncomingMessage s e evt w = deliver cfg e evt chosen content w \<and>
           ChatType (Context (build_payload evt chosen content)) = DestinationType chosen \<and>
           (ExtendedTextMessage (Msg evt) = None \<longrightarrow>
              OriginalMessageID (Context (build_payload evt chosen content))
                = MessageID chosen)"
    by (intro bexI [of _ chosen]) simp_all
qed

theorem correlation_selects_latest_witness:
  "handleIncomingMessage inbound_service inbound_at_50 reply_OK world_replies
     = deliver (otomax_retries 3) inbound_at_50 reply_OK
         (row_for 2 ''TRX-B'' ''M-B'' ''628111222333@s.whatsapp.net'' 20 110) ''OK''
         world_replies \<and>
   OriginalMessageID (Context (build_payload reply_OK
     (row_for 2 ''TRX-B'' ''M-B'' ''628111222333@s.whatsapp.net'' 20 110) ''OK'')) = ''M-B''"
proof -
  have A: "JID_String (Chat (Info reply_OK)) = ''628111222333@s.whatsapp.net''"
    by (simp add: reply_OK_def JID_String_def)
  have h1: "\<not> IsFromMe (Info reply_OK)" by (simp add: reply_OK_def)
  have h2: "whitelist_passes inbound_service (JID_String (Chat (Info reply_OK)))"
    by (simp add: whitelist_passes_def inbound_service_def demo_whatsapp_def)
  have h3: "repo_set inbound_service" by (simp add: inbound_service_def demo_whatsapp_def)
  have h4: "io_dest inbound_at_50 = None" by (simp add: inbound_at_50_def)
  have h5: "otomaxService inbound_service = Some (otomax_retries 3)"
    by (simp add: inbound_service_def)
  have h6: "messageContent_of (Msg reply_OK) = Some ''OK''"
    by (simp add: messageContent_of_def reply_OK_def)
  have ex: "\<exists>r\<in>set (rows (repo world_replies)).
         Destination r = JID_String (Chat (Info reply_OK)) \<and> now_dest inbound_at_50 < ExpiresAt r"
    by (simp add: A world_replies_def row_for_def inbound_at_50_def)
  from correlation_selects_latest [OF h1 h2 h3 h4 h5 h6, of world_replies, THEN conjunct2,
      rule_format, OF ex]
  obtain chosen where c: "chosen \<in> set (rows (repo world_replies))"
    "Destination chosen = JID_String (Chat (Info reply_OK))"
    "now_dest inbound_at_50 < ExpiresAt chosen"
    "\<forall>r\<in>set (rows (repo world_replies)).
        Destination r = JID_String (Chat (Info reply_OK)) \<and> now_dest inbound_at_50 < ExpiresAt r
        \<longrightarrow> SentAt r \<le> SentAt chosen"
    "handleIncomingMessage inbound_service inbound_at_50 reply_OK world_replies
       = deliver (otomax_retries 3) inbound_at_50 reply_OK chosen ''OK'' world_replies"
    "ExtendedTextMessage (Msg reply_OK) = None \<longrightarrow>
       OriginalMessageID (Context (build_payload reply_OK chosen ''OK'')) = MessageID chosen"
    by (elim bexE conjE)
  from c(4) have "SentAt (row_for 2 ''TRX-B'' ''M-B'' ''628111222333@s.whatsapp.net'' 20 110)
      \<le> SentAt chosen"
    by (simp add: A world_replies_def row_for_def inbound_at_50_def)
  with c(1,2,3) have "chosen = row_for 2 ''TRX-B'' ''M-B'' ''628111222333@s.whatsapp.net'' 20 110"
    by (auto simp: A world_replies_def row_for_def inbound_at_50_def)
  with c(5,6) show ?thesis
    by (simp add: reply_OK_def row_for_def)
qed

section \<open>Properties: the delivery dispatcher\<close>

lemma effects_emit [simp]:
  "effects (trace (emit (Log l m fs) w)) = effects (trace w)"
  "effects (trace (emit (Sleep d) w)) = effects (trace w) @ [Sleep d]"
  "effects (trace (emit (WebhookSend p) w)) = effects (trace w) @ [WebhookSend p]"
  by (simp_all add: effects_def emit_def)

lemma upto_first: "a \<le> n - 1 \<Longrightarrow> [a..n - 1] = a # [a + 1..n - 1]"
  by (simp add: upto_rec1)

lemma SendWebhook_loop_schedule:
  assumes "SendWebhook_loop cfg env payload trxID a lastErr w = (res, w')"
  shows "\<exists>n. a \<le> n \<and> n \<le> max a (RetryCount cfg + 1) \<and>
           effects (trace w') =
             effects (trace w) @ concat (map (retry_events (conv_overflow env) payload) [a..n - 1]) \<and>
           (\<forall>i. a \<le> i \<and> i < n - 1 \<longrightarrow> send (http env i) \<noteq> None) \<and>
           (res = None \<longrightarrow> a < n \<and> send (http env (n - 1)) = None) \<and>
           (res \<noteq> None \<longrightarrow>
              n = max a (RetryCount cfg + 1) \<and>
              (\<forall>i. a \<le> i \<and> i < n \<longrightarrow> send (http env i) \<noteq> None) \<and>
              res = Some (WebhookDeliveryFailed (RetryCount cfg + 1)
                      (if a < n then send (http env (n - 1)) else lastErr)))"
  using assms
proof (induction cfg env payload trxID a lastErr w arbitrary: res w' rule: SendWebhook_loop.induct)
  case (1 cfg env payload trxID attempt lastErr w)
  show ?case
  proof (cases "attempt \<le> RetryCount cfg")
    case False
    with "1.prems" have "res = Some (WebhookDeliveryFailed (RetryCount cfg + 1) lastErr)" "w' = w"
      by (simp_all add: SendWebhook_loop.simps)
    with False show ?thesis
      by (intro exI [of _ attempt]) auto
  next
    case True
    define w1 where "w1 = (if attempt > 0 then
                     emit (Sleep (sint (backoff (conv_overflow env) attempt)))
                       (emit (Log LWarn ''Retrying webhook delivery''
                          [(''trxid'', S trxID), (''attempt'', I (attempt + 1)),
                           (''backoff_seconds'',
                            I (sint (backoff (conv_overflow env) attempt)))]) w)
                   else w)"
    define w2 where "w2 = emit (WebhookSend payload) w1"
    have e2: "effects (trace w2) = effects (trace w) @ retry_events (conv_overflow env) payload attempt"
      by (simp add: w2_def w1_def retry_events_def)
    show ?thesis
    proof (cases "send (http env attempt)")
      case None
      with True "1.prems" have "res = None"
        and "w' = (if attempt > 0 then
                    emit (Log LInfo ''Webhook delivered''
                      [(''trxid'', S trxID), (''attempt'', I (attempt + 1))]) w2
                  else w2)"
        by (auto simp: SendWebhook_loop.simps [of cfg env payload trxID attempt] w1_def w2_def Let_def
            split: if_splits)
      then have "res = None" and "effects (trace w') = effects (trace w2)"
        by simp_all
      with e2 None True show ?thesis
        by (intro exI [of _ "attempt + 1"]) auto
    next
      case (Some err)
      let ?w3 = "emit (Log LWarn ''Webhook delivery failed''
                      [(''trxid'', S trxID), (''attempt'', I (attempt + 1)),
                       (''error'', E err)]) w2"
      from True Some "1.prems"
      have rec: "SendWebhook_loop cfg env payload trxID (attempt + 1) (Some err) ?w3 = (res, w')"
        by (simp add: SendWebhook_loop.simps [of cfg env payload trxID attempt] w1_def w2_def Let_def)
      from "1.IH" [OF True w1_def w2_def Some rec]
      obtain n where n: "attempt + 1 \<le> n" "n \<le> max (attempt + 1) (RetryCount cfg + 1)"
        "effects (trace w') =
             effects (trace ?w3) @ concat (map (retry_events (conv_overflow env) payload) [attempt + 1..n - 1])"
        "\<forall>i. attempt + 1 \<le> i \<and> i < n - 1 \<longrightarrow> send (http env i) \<noteq> None"
        "res = None \<longrightarrow> attempt + 1 < n \<and> send (http env (n - 1)) = None"
        "res \<noteq> None \<longrightarrow>
              n = max (attempt + 1) (RetryCount cfg + 1) \<and>
              (\<forall>i. attempt + 1 \<le> i \<and> i < n \<longrightarrow> send (http env i) \<noteq> None) \<and>
              res = Some (WebhookDeliveryFailed (RetryCount cfg + 1)
                      (if attempt + 1 < n then send (http env (n - 1)) else Some err))"
        by blast
      have up: "[attempt..n - 1] = attempt # [attempt + 1..n - 1]"
        using n(1) by (intro upto_first) simp
      have fails: "\<forall>i. attempt \<le> i \<and> i < n - 1 \<longrightarrow> send (http env i) \<noteq> None"
      proof (intro allI impI)
        fix i assume "attempt \<le> i \<and> i < n - 1"
        then consider "i = attempt" | "attempt + 1 \<le> i \<and> i < n - 1" by linarith
        then show "send (http env i) \<noteq> None"
          using Some n(4) by cases auto
      qed
      show ?thesis
      proof (intro exI [of _ n] conjI)
        show "attempt \<le> n" using n(1) by simp
        show "n \<le> max attempt (RetryCount cfg + 1)" using n(2) True by simp
        show "effects (trace w') = effects (trace w) @
                concat (map (retry_events (conv_overflow env) payload) [attempt..n - 1])"
          using n(3) e2 up by simp
        show "\<forall>i. attempt \<le> i \<and> i < n - 1 \<longrightarrow> send (http env i) \<noteq> None" by (rule fails)
        show "res = None \<longrightarrow> attempt < n \<and> send (http env (n - 1)) = None"
          using n(1,5) by auto
        show "res \<noteq> None \<longrightarrow>
              n = max attempt (RetryCount cfg + 1) \<and>
              (\<forall>i. attempt \<le> i \<and> i < n \<longrightarrow> send (http env i) \<noteq> None) \<and>
              res = Some (WebhookDeliveryFailed (RetryCount cfg + 1)
                      (if attempt < n then send (http env (n - 1)) else lastErr))"
        proof
          assume r: "res \<noteq> None"
          with n(6) have a: "n = max (attempt + 1) (RetryCount cfg + 1)"
            and b: "\<forall>i. attempt + 1 \<le> i \<and> i < n \<longrightarrow> send (http env i) \<noteq> None"
            and c: "res = Some (WebhookDeliveryFailed (RetryCount cfg + 1)
                      (if attempt + 1 < n then send (http env (n - 1)) else Some err))"
            by simp_all
          have "n = max attempt (RetryCount cfg + 1)" using a True by simp
          moreover have "\<forall>i. attempt \<le> i \<and> i < n \<longrightarrow> send (http env i) \<noteq> None"
          proof (intro allI impI)
            fix i assume "attempt \<le> i \<and> i < n"
            then consider "i = attempt" | "attempt + 1 \<le> i \<and> i < n" by linarith
            then show "send (http env i) \<noteq> None" using Some b by cases auto
          qed
          moreover have "(if attempt + 1 < n then send (http env (n - 1)) else Some err)
                         = (if attempt < n then send (http env (n - 1)) else lastErr)"
          proof (cases "attempt + 1 < n")
            case True then show ?thesis by simp
          next
            case False
            with n(1) have "n = attempt + 1" by simp
            with Some show ?thesis by simp
          qed
          ultimately show "n = max attempt (RetryCount cfg + 1) \<and>
              (\<forall>i. attempt \<le> i \<and> i < n \<longrightarrow> send (http env i) \<noteq> None) \<and>
              res = Some (WebhookDeliveryFailed (RetryCount cfg + 1)
                      (if attempt < n then send (http env (n - 1)) else lastErr))"
            using c by simp
        qed
      qed
    qed
  qed
qed

lemma backoff_exact:
  assumes "1 \<le> i" and "i \<le> 34"
  shows "sint (backoff conv i) = 2 ^ nat (i - 1) * 1000000000"
proof -
  let ?k = "nat (i - 1)"
  from assms have k: "?k \<le> 33" by simp
  then have "(2::int) ^ ?k \<le> 2 ^ 33" by (intro power_increasing) simp_all
  then have hi: "(2::int) ^ ?k * 1000000000 < 2 ^ 63" by simp
  have lo: "- (2 ^ 63) \<le> (2::int) ^ ?k * 1000000000"
    by (rule order_trans [of _ 0]) simp_all
  from assms have "backoff conv i = (word_of_int (2 ^ ?k * 1000000000) :: 64 word)"
    by (simp add: backoff_def)
  then have "sint (backoff conv i) = signed_take_bit 63 ((2::int) ^ ?k * 1000000000)"
    by (simp only: sint_sbintrunc') simp
  also have "\<dots> = 2 ^ ?k * 1000000000"
    using lo hi by (intro signed_take_bit_int_eq_self) simp_all
  finally show ?thesis .
qed

lemma sends_schedule:
  "sends (concat (map (retry_events conv payload) is)) = length is"
  by (induction "is") (simp_all add: sends_def retry_events_def)

lemma sends_effects: "sends (effects tr) = sends tr"
  by (induction tr) (auto simp: sends_def effects_def split: event.splits)

lemma SendWebhook_schedule:
  assumes "SendWebhook cfg env payload trxID w = (res, w')"
  shows "\<exists>n. 0 \<le> n \<and> n \<le> max 0 (RetryCount cfg + 1) \<and>
           sends (trace w') = sends (trace w) + nat n \<and>
           effects (trace w') =
             effects (trace w) @ concat (map (retry_events (conv_overflow env) payload) [0..n - 1]) \<and>
           (res = None \<longrightarrow> 0 < n \<and> send (http env (n - 1)) = None) \<and>
           (res \<noteq> None \<longrightarrow>
              n = max 0 (RetryCount cfg + 1) \<and>
              res = Some (WebhookDeliveryFailed (RetryCount cfg + 1)
                      (if 0 \<le> RetryCount cfg then send (http env (RetryCount cfg)) else None))) \<and>
           (res \<noteq> None \<longleftrightarrow> (\<forall>i. 0 \<le> i \<and> i \<le> RetryCount cfg \<longrightarrow> send (http env i) \<noteq> None))"
proof -
  from SendWebhook_loop_schedule [OF assms [unfolded SendWebhook_def]]
  obtain n where n: "0 \<le> n" "n \<le> max 0 (RetryCount cfg + 1)"
    "effects (trace w') =
       effects (trace w) @ concat (map (retry_events (conv_overflow env) payload) [0..n - 1])"
    "\<forall>i. 0 \<le> i \<and> i < n - 1 \<longrightarrow> send (http env i) \<noteq> None"
    "res = None \<longrightarrow> 0 < n \<and> send (http env (n - 1)) = None"
    "res \<noteq> None \<longrightarrow>
       n = max 0 (RetryCount cfg + 1) \<and>
       (\<forall>i. 0 \<le> i \<and> i < n \<longrightarrow> send (http env i) \<noteq> None) \<and>
       res = Some (WebhookDeliveryFailed (RetryCount cfg + 1)
               (if 0 < n then send (http env (n - 1)) else None))"
    by blast
  have count: "sends (trace w') = sends (trace w) + nat n"
  proof -
    have "sends (trace w') = sends (effects (trace w'))" by (simp add: sends_effects)
    also have "\<dots> = sends (effects (trace w)) +
        sends (concat (map (retry_events (conv_overflow env) payload) [0..n - 1]))"
      by (simp add: n(3) sends_def)
    also have "\<dots> = sends (trace w) + nat n"
      using n(1) by (simp add: sends_effects sends_schedule)
    finally show ?thesis .
  qed
  have failed: "res \<noteq> None \<longrightarrow>
       n = max 0 (RetryCount cfg + 1) \<and>
       res = Some (WebhookDeliveryFailed (RetryCount cfg + 1)
               (if 0 \<le> RetryCount cfg then send (http env (RetryCount cfg)) else None))"
  proof
    assume "res \<noteq> None"
    with n(6) have a: "n = max 0 (RetryCount cfg + 1)"
      and b: "res = Some (WebhookDeliveryFailed (RetryCount cfg + 1)
               (if 0 < n then send (http env (n - 1)) else None))" by simp_all
    have "(if 0 < n then send (http env (n - 1)) else None)
          = (if 0 \<le> RetryCount cfg then send (http env (RetryCount cfg)) else None)"
      using a by (cases "0 \<le> RetryCount cfg") simp_all
    with a b show "n = max 0 (RetryCount cfg + 1) \<and>
       res = Some (WebhookDeliveryFailed (RetryCount cfg + 1)
               (if 0 \<le> RetryCount cfg then send (http env (RetryCount cfg)) else None))"
      by simp
  qed
  have iff: "res \<noteq> None \<longleftrightarrow> (\<forall>i. 0 \<le> i \<and> i \<le> RetryCount cfg \<longrightarrow> send (http env i) \<noteq> None)"
  proof
    assume "res \<noteq> None"
    with n(6) have "n = max 0 (RetryCount cfg + 1)"
      and "\<forall>i. 0 \<le> i \<and> i < n \<longrightarrow> send (http env i) \<noteq> None" by simp_all
    then show "\<forall>i. 0 \<le> i \<and> i \<le> RetryCount cfg \<longrightarrow> send (http env i) \<noteq> None" by auto
  next
    assume all: "\<forall>i. 0 \<le> i \<and> i \<le> RetryCount cfg \<longrightarrow> send (http env i) \<noteq> None"
    show "res \<noteq> None"
    proof
      assume "res = None"
      with n(5) have "0 < n" "send (http env (n - 1)) = None" by simp_all
      moreover from \<open>0 < n\<close> n(2) have "0 \<le> n - 1 \<and> n - 1 \<le> RetryCount cfg" by simp
      ultimately show False using all by blast
    qed
  qed
  from n(1,2,3,5) count failed iff show ?thesis by blast
qed

text \<open>
  The schedule of a delivery. A delivery with retry count \<open>R\<close> makes \<open>n\<close> calls
  of \<open>send\<close>, with \<open>n\<close> at most \<open>R + 1\<close> (none when \<open>R\<close> is negative). Log
  lines apart, it does nothing else than, for each attempt \<open>i\<close> from 0 to \<open>n - 1\<close>
  in turn, sleep before the attempt when \<open>i > 0\<close> and call \<open>send\<close>; the sleep
  before attempt \<open>i + 1\<close> (the loop's \<open>attempt = i\<close>) is exactly \<open>2 ^ (i - 1)\<close>
  seconds for \<open>i\<close> from 1 to 34. It returns no error exactly when its last attempt
  succeeded, and an error exactly when every attempt from 0 to \<open>R\<close> failed: then all
  \<open>R + 1\<close> attempts were made and the error is the delivery failure carrying
  \<open>R + 1\<close> and the error of the last attempt.
\<close>

theorem webhook_retry_schedule:
  assumes "SendWebhook cfg env payload trxID w = (res, w')"
  shows "(\<exists>n. 0 \<le> n \<and> n \<le> max 0 (RetryCount cfg + 1) \<and>
           sends (trace w') = sends (trace w) + nat n \<and>
           effects (trace w') =
             effects (trace w) @ concat (map (retry_events (conv_overflow env) payload) [0..n - 1]) \<and>
           (res = None \<longrightarrow> 0 < n \<and> send (http env (n - 1)) = None) \<and>
           (res \<noteq> None \<longrightarrow>
              n = max 0 (RetryCount cfg + 1) \<and>
              res = Some (WebhookDeliveryFailed (RetryCount cfg + 1)
                      (if 0 \<le> RetryCount cfg then send (http env (RetryCount cfg)) else None))) \<and>
           (res \<noteq> None \<longleftrightarrow> (\<forall>i. 0 \<le> i \<and> i \<le> RetryCount cfg \<longrightarrow> send (http env i) \<noteq> None))) \<and>
         retry_events (conv_overflow env) payload 0 = [WebhookSend payload] \<and>
         (\<forall>i. 1 \<le> i \<and> i \<le> 34 \<longrightarrow>
            retry_events (conv_overflow env) payload i
              = [Sleep (2 ^ nat (i - 1) * 1000000000), WebhookSend payload])"
proof (intro conjI allI impI)
  show "\<exists>n. 0 \<le> n \<and> n \<le> max 0 (RetryCount cfg + 1) \<and>
           sends (trace w') = sends (trace w) + nat n \<and>
           effects (trace w') =
             effects (trace w) @ concat (map (retry_events (conv_overflow env) payload) [0..n - 1]) \<and>
           (res = None \<longrightarrow> 0 < n \<and> send (http env (n - 1)) = None) \<and>
           (res \<noteq> None \<longrightarrow>
              n = max 0 (RetryCount cfg + 1) \<and>
              res = Some (WebhookDeliveryFailed (RetryCount cfg + 1)
                      (if 0 \<le> RetryCount cfg then send (http env (RetryCount cfg)) else None))) \<and>
           (res \<noteq> None \<longleftrightarrow> (\<forall>i. 0 \<le> i \<and> i \<le> RetryCount cfg \<longrightarrow> send (http env i) \<noteq> None))"
    by (rule SendWebhook_schedule [OF assms])
  show "retry_events (conv_overflow env) payload 0 = [WebhookSend payload]"
    by (simp add: retry_events_def)
  fix i :: int assume "1 \<le> i \<and> i \<le> 34"
  then show "retry_events (conv_overflow env) payload i
              = [Sleep (2 ^ nat (i - 1) * 1000000000), WebhookSend payload]"
    by (simp add: retry_events_def backoff_exact)
qed

lemma upto_0_3: "[0..3::int] = [0, 1, 2, 3]"
  by (simp add: upto_rec1)

theorem webhook_retry_schedule_witness:
  "fst (SendWebhook (otomax_retries 3) always_500 payload_demo ''TRX1'' empty_world)
     = Some (WebhookDeliveryFailed 4 (Some (UnexpectedStatus 500))) \<and>
   effects (trace (snd (SendWebhook (otomax_retries 3) always_500 payload_demo ''TRX1''
     empty_world)))
     = [WebhookSend payload_demo, Sleep 1000000000, WebhookSend payload_demo,
        Sleep 2000000000, WebhookSend payload_demo, Sleep 4000000000,
        WebhookSend payload_demo]"
proof -
  obtain res w' where run:
    "SendWebhook (otomax_retries 3) always_500 payload_demo ''TRX1'' empty_world = (res, w')"
    by (cases "SendWebhook (otomax_retries 3) always_500 payload_demo ''TRX1'' empty_world")
  note th = webhook_retry_schedule [OF run]
  from th obtain n where n: "effects (trace w') =
             effects (trace empty_world) @
             concat (map (retry_events (conv_overflow always_500) payload_demo) [0..n - 1])"
    "res \<noteq> None \<longrightarrow>
              n = max 0 (RetryCount (otomax_retries 3) + 1) \<and>
              res = Some (WebhookDeliveryFailed (RetryCount (otomax_retries 3) + 1)
                      (if 0 \<le> RetryCount (otomax_retries 3)
                       then send (http always_500 (RetryCount (otomax_retries 3))) else None))"
    "res \<noteq> None \<longleftrightarrow> (\<forall>i. 0 \<le> i \<and> i \<le> RetryCount (otomax_retries 3)
        \<longrightarrow> send (http always_500 i) \<noteq> None)"
    by blast
  from th have ev: "retry_events (conv_overflow always_500) payload_demo 0 = [WebhookSend payload_demo]"
    and sl: "\<And>i. 1 \<le> i \<and> i \<le> 34 \<Longrightarrow>
            retry_events (conv_overflow always_500) payload_demo i
              = [Sleep (2 ^ nat (i - 1) * 1000000000), WebhookSend payload_demo]"
    by simp_all
  from n(3) have failed: "res \<noteq> None"
    by (simp add: always_500_def send_def)
  with n(2) have "n = 4" and r: "res = Some (WebhookDeliveryFailed 4 (Some (UnexpectedStatus 500)))"
    by (simp_all add: otomax_retries_def always_500_def send_def)
  with n(1) have "effects (trace w') =
      concat (map (retry_events (conv_overflow always_500) payload_demo) [0, 1, 2, 3])"
    by (simp add: upto_0_3 effects_def empty_world_def)
  then have "effects (trace w') = [WebhookSend payload_demo, Sleep 1000000000, WebhookSend payload_demo,
        Sleep 2000000000, WebhookSend payload_demo, Sleep 4000000000,
        WebhookSend payload_demo]"
    using ev sl [of 1] sl [of 2] sl [of 3] by simp
  with r run show ?thesis by simp
qed

text \<open>
  Claim C6 at retry count 35, with an endpoint that always fails. All 36 attempts are
  made and the delivery failure carries the last attempt's error. The wait before the
  last attempt should be \<open>2 ^ 34\<close> seconds, \<open>17179869184000000000\<close>
  nanoseconds; the product of \<open>2 ^ 34\<close> and \<open>time.Second\<close> does not fit the 64
  bits of \<open>time.Duration\<close>, nothing guards the multiplication, and the sleep is
  called with the wrapped, negative product. The waits before it are exact (those
  before attempts 2 to 35, see \<open>webhook_retry_schedule\<close>) and add up to
  \<open>2 ^ 34 - 1\<close> seconds.
\<close>

theorem backoff_wraps_before_attempt_36:
  "fst (SendWebhook (otomax_retries 35) always_500 payload_demo ''TRX1'' empty_world)
     = Some (WebhookDeliveryFailed 36 (Some (UnexpectedStatus 500))) \<and>
   effects (trace (snd (SendWebhook (otomax_retries 35) always_500 payload_demo ''TRX1''
     empty_world)))
     = concat (map (retry_events 0 payload_demo) [0..35]) \<and>
   retry_events 0 payload_demo 35
     = [Sleep (- 1266874889709551616), WebhookSend payload_demo] \<and>
   (2::int) ^ 34 * 1000000000 = 17179869184000000000"
proof -
  obtain res w' where run:
    "SendWebhook (otomax_retries 35) always_500 payload_demo ''TRX1'' empty_world = (res, w')"
    by (cases "SendWebhook (otomax_retries 35) always_500 payload_demo ''TRX1'' empty_world")
  from SendWebhook_schedule [OF run] obtain n where n: "effects (trace w') =
             effects (trace empty_world) @
             concat (map (retry_events (conv_overflow always_500) payload_demo) [0..n - 1])"
    "res \<noteq> None \<longrightarrow>
              n = max 0 (RetryCount (otomax_retries 35) + 1) \<and>
              res = Some (WebhookDeliveryFailed (RetryCount (otomax_retries 35) + 1)
                      (if 0 \<le> RetryCount (otomax_retries 35)
                       then send (http always_500 (RetryCount (otomax_retries 35))) else None))"
    "res \<noteq> None \<longleftrightarrow> (\<forall>i. 0 \<le> i \<and> i \<le> RetryCount (otomax_retries 35)
        \<longrightarrow> send (http always_500 i) \<noteq> None)"
    by blast
  from n(3) have "res \<noteq> None"
    by (simp add: always_500_def send_def)
  with n(2) have "n = 36" and r: "res = Some (WebhookDeliveryFailed 36 (Some (UnexpectedStatus 500)))"
    by (simp_all add: otomax_retries_def always_500_def send_def)
  with n(1) have "effects (trace w') = concat (map (retry_events 0 payload_demo) [0..35])"
    by (simp add: effects_def empty_world_def always_500_def)
  moreover have "retry_events 0 payload_demo 35
     = [Sleep (- 1266874889709551616), WebhookSend payload_demo]"
    by (simp add: retry_events_def backoff_def)
  ultimately show ?thesis using r run by simp
qed

section \<open>Properties: destination validation\<close>

lemma ReplaceAll_nondigit_filter: "ReplaceAll_nondigit s = filter digit s"
  by (induction s) simp_all

lemma TrimLeft_zero: "TrimLeft s ''0'' = dropWhile (\<lambda>c. c = CHR ''0'') s"
  by (induction s) simp_all

lemma HasPrefix_62: "HasPrefix s ''62'' \<longleftrightarrow> take 2 s = ''62''"
proof
  assume "HasPrefix s ''62''"
  then show "take 2 s = ''62''" by (simp add: HasPrefix_def numeral_2_eq_2)
next
  assume a: "take 2 s = ''62''"
  then have "length (take 2 s) = 2" by simp
  then have "2 \<le> length s" by simp
  with a show "HasPrefix s ''62''" by (simp add: HasPrefix_def numeral_2_eq_2)
qed

lemma normalizePhoneNumber_normal_form:
  "normalizePhoneNumber d =
     (if length (normal_form d) < 11 \<or> length (normal_form d) > 15 then []
      else normal_form d)"
  by (simp add: normalizePhoneNumber_def normal_form_def ReplaceAll_nondigit_filter
      TrimLeft_zero HasPrefix_62 Let_def)

lemma normal_form_digits:
  assumes "c \<in> set (normal_form d)"
  shows "digit c"
proof -
  let ?z = "dropWhile (\<lambda>c. c = CHR ''0'') (filter digit d)"
  have z: "digit x" if "x \<in> set ?z" for x
    using set_dropWhileD [OF that] by simp
  show ?thesis
  proof (cases "take 2 ?z = ''62''")
    case True
    then have "normal_form d = ?z" unfolding normal_form_def Let_def by (simp only: if_True refl)
    with assms z show ?thesis by simp
  next
    case False
    then have "normal_form d = ''62'' @ ?z"
      unfolding normal_form_def Let_def by (simp only: if_False)
    with assms have "c = CHR ''6'' \<or> c = CHR ''2'' \<or> c \<in> set ?z" by auto
    then show ?thesis
    proof (elim disjE)
      assume "c = CHR ''6''"
      then show ?thesis by (simp add: digit_def)
    next
      assume "c = CHR ''2''"
      then show ?thesis by (simp add: digit_def)
    next
      assume "c \<in> set ?z"
      then show ?thesis by (rule z)
    qed
  qed
qed

lemma normal_form_62: "take 2 (normal_form d) = ''62''"
proof (cases "take 2 (dropWhile (\<lambda>c. c = CHR ''0'') (filter digit d)) = ''62''")
  case True
  then have "normal_form d = dropWhile (\<lambda>c. c = CHR ''0'') (filter digit d)"
    unfolding normal_form_def Let_def by (simp only: if_True refl)
  with True show ?thesis by (simp only:)
next
  case False
  then have "normal_form d = ''62'' @ dropWhile (\<lambda>c. c = CHR ''0'') (filter digit d)"
    unfolding normal_form_def Let_def by (simp only: if_False)
  then show ?thesis by simp
qed

text \<open>
  Claim C10. For a destination that does not contain \<open>@g.us\<close>,
  \<open>ValidateDestination\<close> works on the normal form: when the normal form has fewer
  than 11 or more than 15 characters the destination is rejected as an invalid phone
  number; otherwise the answer of the transport on the normal form decides. Whenever
  the destination is accepted, the normal form has between 11 and 15 characters, the
  address returned has the normal form as its user part on the default user server, it
  is of type personal, and its user part consists of digits only and starts with
  \<open>62\<close>.
\<close>

theorem personal_destination_normalized:
  assumes "\<not> Contains destination ''@g.us''"
  shows
    "(length (normal_form destination) < 11 \<or> length (normal_form destination) > 15 \<longrightarrow>
        ValidateDestination s destination = Inl InvalidPhoneFormat) \<and>
     (11 \<le> length (normal_form destination) \<and> length (normal_form destination) \<le> 15 \<longrightarrow>
        ValidateDestination s destination =
          (case client_IsOnWhatsApp (client s) [normal_form destination] of
             Inl m \<Rightarrow> Inl (WhatsAppStatusFailed (Driver m))
           | Inr resp \<Rightarrow>
               (case resp of
                  [] \<Rightarrow> Inl NotRegistered
                | isIn # rest \<Rightarrow>
                    if isIn then Inr (NewJID (normal_form destination) DefaultUserServer,
                                      ''personal'')
                    else Inl NotRegistered))) \<and>
     (\<forall>jid destType. ValidateDestination s destination = Inr (jid, destType) \<longrightarrow>
        11 \<le> length (normal_form destination) \<and> length (normal_form destination) \<le> 15 \<and>
        User jid = normal_form destination \<and> Server jid = DefaultUserServer \<and>
        destType = ''personal'' \<and>
        (\<forall>c\<in>set (User jid). digit c) \<and> take 2 (User jid) = ''62'')"
proof (intro conjI impI allI)
  assume "length (normal_form destination) < 11 \<or> length (normal_form destination) > 15"
  with assms show "ValidateDestination s destination = Inl InvalidPhoneFormat"
    by (simp add: ValidateDestination_def normalizePhoneNumber_normal_form)
next
  assume r: "11 \<le> length (normal_form destination) \<and> length (normal_form destination) \<le> 15"
  then have "normalizePhoneNumber destination = normal_form destination"
    and "normal_form destination \<noteq> []"
    by (auto simp: normalizePhoneNumber_normal_form)
  with assms show "ValidateDestination s destination =
          (case client_IsOnWhatsApp (client s) [normal_form destination] of
             Inl m \<Rightarrow> Inl (WhatsAppStatusFailed (Driver m))
           | Inr resp \<Rightarrow>
               (case resp of
                  [] \<Rightarrow> Inl NotRegistered
                | isIn # rest \<Rightarrow>
                    if isIn then Inr (NewJID (normal_form destination) DefaultUserServer,
                                      ''personal'')
                    else Inl NotRegistered))"
    by (simp add: ValidateDestination_def Let_def split: sum.splits list.splits)
next
  fix jid destType
  assume ok: "ValidateDestination s destination = Inr (jid, destType)"
  have range: "11 \<le> length (normal_form destination) \<and> length (normal_form destination) \<le> 15"
  proof (rule ccontr)
    assume "\<not> ?thesis"
    then have "normalizePhoneNumber destination = []"
      by (auto simp: normalizePhoneNumber_normal_form)
    with assms ok show False by (simp add: ValidateDestination_def)
  qed
  then have n: "normalizePhoneNumber destination = normal_form destination"
    by (auto simp: normalizePhoneNumber_normal_form)
  from assms ok n have j: "jid = NewJID (normal_form destination) DefaultUserServer"
    and t: "destType = ''personal''"
    by (auto simp: ValidateDestination_def Let_def split: if_splits sum.splits list.splits)
  from range show "11 \<le> length (normal_form destination)" by simp
  from range show "length (normal_form destination) \<le> 15" by simp
  from j show "User jid = normal_form destination" by (simp add: NewJID_def)
  from j show "Server jid = DefaultUserServer" by (simp add: NewJID_def)
  from t show "destType = ''personal''" .
  show "\<forall>c\<in>set (User jid). digit c"
  proof
    fix c assume "c \<in> set (User jid)"
    with j have "c \<in> set (normal_form destination)" by (simp add: NewJID_def)
    then show "digit c" by (rule normal_form_digits)
  qed
  from j show "take 2 (User jid) = ''62''" by (simp add: NewJID_def normal_form_62)
qed

theorem personal_destination_normalized_witness:
  "ValidateDestination (demo_whatsapp ''M1'' []) ''0811-1222-333''
     = Inr (NewJID ''628111222333'' DefaultUserServer, ''personal'') \<and>
   ValidateDestination (demo_whatsapp ''M1'' []) ''+62 811'' = Inl InvalidPhoneFormat \<and>
   ValidateDestination (demo_whatsapp ''M1'' []) ''1234567890123456'' = Inl InvalidPhoneFormat"
proof -
  have a1: "\<not> Contains ''0811-1222-333'' ''@g.us''" by (simp add: HasPrefix_def)
  have a2: "\<not> Contains ''+62 811'' ''@g.us''" by (simp add: HasPrefix_def)
  have a3: "\<not> Contains ''1234567890123456'' ''@g.us''" by (simp add: HasPrefix_def)
  have n1: "normal_form ''0811-1222-333'' = ''628111222333''"
    by (simp add: normal_form_def digit_def)
  have n2: "normal_form ''+62 811'' = ''62811''"
    by (simp add: normal_form_def digit_def)
  have n3: "normal_form ''1234567890123456'' = ''621234567890123456''"
    by (simp add: normal_form_def digit_def)
  have r1: "11 \<le> length (normal_form ''0811-1222-333'') \<and>
            length (normal_form ''0811-1222-333'') \<le> 15"
    by (simp add: n1)
  have r2: "length (normal_form ''+62 811'') < 11 \<or> length (normal_form ''+62 811'') > 15"
    by (simp add: n2)
  have r3: "length (normal_form ''1234567890123456'') < 11 \<or>
            length (normal_form ''1234567890123456'') > 15"
    by (simp add: n3)
  note c1 = personal_destination_normalized [OF a1, of "demo_whatsapp ''M1'' []",
      THEN conjunct2, THEN conjunct1, rule_format, OF r1]
  note c2 = personal_destination_normalized [OF a2, of "demo_whatsapp ''M1'' []",
      THEN conjunct1, rule_format, OF r2]
  note c3 = personal_destination_normalized [OF a3, of "demo_whatsapp ''M1'' []",
      THEN conjunct1, rule_format, OF r3]
  have "ValidateDestination (demo_whatsapp ''M1'' []) ''0811-1222-333''
     = Inr (NewJID ''628111222333'' DefaultUserServer, ''personal'')"
    using c1 by (simp add: n1 demo_whatsapp_def demo_client_def)
  with c2 c3 show ?thesis by (simp only: simp_thms)
qed

section \<open>Properties: the request handler\<close>









section \<open>Properties: the constraint is kept\<close>

text \<open>
  The insert is one statement, and it alone enforces the \<open>UNIQUE\<close> constraint: once
  a row is in the table a second insert with its \<open>trx_id\<close> fails and changes
  nothing. Every call of \<open>ProcessTransaction\<close> leaves a table that satisfies the
  constraint.
\<close>

lemma Save_same_id_rejected:
  assumes "Save io c r a = (None, r1)" and "TrxID b = TrxID a"
  shows "Save None c' r1 b = (Some (UniqueConstraint ''transactions.trx_id''), r1)"
  using assms by (auto simp: Save_def split: option.splits if_splits)

lemma unique_trx_id_empty: "unique_trx_id \<lparr>rows = [], seq = n\<rparr>"
  by (simp add: unique_trx_id_def)


section \<open>Properties: admission calls with the same transaction id\<close>












end
